theory Spec2Isabelle
  imports Complex_Main
begin

section \<open>Conventions of the embedding\<close>

text \<open>
  The hooks of the player are React hooks: a piece of React state (\<open>useState\<close>) plus
  mutable refs (\<open>useRef\<close>) that are read and written by timer callbacks.  Each hook
  instance is a record holding its state and refs; each callback is a function from
  the record to the updated record.  Callbacks run to completion one after another
  (one event loop), and a callback sees the state left by the previous one.

  A JavaScript \<open>number\<close> is a \<^typ>\<open>real\<close>: comparisons and arithmetic are exact, the
  rounding of IEEE doubles is not modelled, and no input is \<open>NaN\<close>.  Counters that
  start at zero and are only incremented are \<^typ>\<open>nat\<close>.  Every read of the clock
  (\<open>Date.now()\<close>) and every draw of \<open>Math.random()\<close> is a parameter of the
  function that performs it.  A value of type \<open>T | null\<close> is a \<^typ>\<open>'a option\<close>.

  Definitions carry the names of the source.  An anonymous timer callback is named
  after what it does (\<open>decisionTick\<close>, \<open>monitorTick\<close>, \<open>bandwidthTick\<close>, ...), and a
  local variable whose name is also a field of a record is shortened (\<open>scr\<close>,
  \<open>stallCnt\<close>, \<open>bufferingTme\<close>, \<open>byts\<close>, ...).
\<close>

section \<open>Adaptive bitrate engine: \<open>src/hooks/useAdaptiveBitrate.ts\<close>\<close>

text \<open>
  \<open>StreamQuality\<close> is declared in \<open>utils/manifestParser\<close>; the hook reads the
  fields \<open>label\<close> and \<open>bandwidth\<close> (bits per second) only.
\<close>

record StreamQuality =
  label :: string
  bandwidth :: real

record ABRConfig =
  enabled :: bool
  switchThreshold :: real
  minSwitchInterval :: real
  bufferTargetUp :: real
  bufferTargetDown :: real

text \<open>The default value of the hook's \<open>config\<close> parameter (lines 25-31).\<close>

definition defaultABRConfig :: ABRConfig where
  "defaultABRConfig =
     \<lparr>enabled = True, switchThreshold = 3, minSwitchInterval = 10000,
      bufferTargetUp = 8, bufferTargetDown = 2\<rparr>"

text \<open>
  The string literals that \<open>adaptationReason\<close> takes, in the order of the source; the
  source writes them in French with accents: 'ABR desactive', 'Trop tot pour changer',
  'Initialisation qualite', 'Qualite deja optimale', 'Buffer critique - downgrade urgent',
  'Sante faible - downgrade recommande', 'Buffer insuffisant pour upgrade',
  'Sante insuffisante pour upgrade', 'Conditions pas encore stables',
  'Conditions optimales - upgrade', 'Bande passante insuffisante',
  'Conditions non reunies', the empty string and 'Manuel'.
\<close>

datatype reason =
    ABR_desactive
  | Trop_tot_pour_changer
  | Initialisation_qualite
  | Qualite_deja_optimale
  | Buffer_critique_downgrade_urgent
  | Sante_faible_downgrade_recommande
  | Buffer_insuffisant_pour_upgrade
  | Sante_insuffisante_pour_upgrade
  | Conditions_pas_encore_stables
  | Conditions_optimales_upgrade
  | Bande_passante_insuffisante
  | Conditions_non_reunies
  | Empty_reason
  | Manuel

record ABRState =
  currentQuality :: "StreamQuality option"
  targetQuality :: "StreamQuality option"
  isAdapting :: bool
  adaptationReason :: reason
  switchCount :: nat

text \<open>
  One instance of the hook.  \<open>adaptationTimerRef\<close> holds the pending settle timer, if
  any, with the \<open>optimalQuality\<close> and \<open>reason\<close> its callback captured; a timer that
  has fired or has been cleared is \<open>None\<close> (clearing it again does nothing).
\<close>

record ABRHook =
  abrState :: ABRState
  lastSwitchTimeRef :: real
  switchCountRef :: nat
  adaptationTimerRef :: "(StreamQuality \<times> reason) option"
  stableCountRef :: nat

definition initialABRHook :: ABRHook where
  "initialABRHook =
     \<lparr>abrState = \<lparr>currentQuality = None, targetQuality = None, isAdapting = False,
                  adaptationReason = Empty_reason, switchCount = 0\<rparr>,
      lastSwitchTimeRef = 0, switchCountRef = 0, adaptationTimerRef = None,
      stableCountRef = 0\<rparr>"

text \<open>The local constant \<open>safetyFactor\<close> of \<open>determineOptimalQuality\<close> (line 53).\<close>

definition safetyFactor :: "real \<Rightarrow> real" where
  "safetyFactor healthScore =
     (if healthScore > 80 then 0.9 else if healthScore > 60 then 0.75 else 0.6)"

text \<open>
  \<open>determineOptimalQuality\<close> (lines 47-70).  \<open>recommendQuality\<close> is imported from
  \<open>utils/manifestParser\<close>, which is not among the sources: it is a parameter.
\<close>

definition determineOptimalQuality ::
  "(real \<Rightarrow> StreamQuality list \<Rightarrow> StreamQuality option) \<Rightarrow> ABRConfig \<Rightarrow>
   StreamQuality list \<Rightarrow> real \<Rightarrow> real \<Rightarrow> real \<Rightarrow> StreamQuality option" where
  "determineOptimalQuality recommendQuality config availableQualities currentBandwidth
       bufferLevel healthScore =
     (if availableQualities = [] \<or> \<not> enabled config then None
      else
        let safeBandwidth = currentBandwidth * safetyFactor healthScore;
            targetBandwidth =
              (if bufferLevel < bufferTargetDown config then safeBandwidth * 0.7
               else if bufferLevel < bufferTargetUp config then safeBandwidth * 0.85
               else safeBandwidth * 1.0)
        in recommendQuality targetBandwidth availableQualities)"

text \<open>
  \<open>shouldSwitch\<close> (lines 73-133).  \<open>now\<close> is the clock read of line 81; the refs it reads
  are those of the hook \<open>h\<close>; \<open>currentBandwidth\<close>, \<open>bufferLevel\<close> and \<open>healthScore\<close> are
  the values its closure holds.
\<close>

definition shouldSwitch ::
  "ABRConfig \<Rightarrow> ABRHook \<Rightarrow> real \<Rightarrow> real \<Rightarrow> real \<Rightarrow> real \<Rightarrow>
   StreamQuality option \<Rightarrow> StreamQuality option \<Rightarrow> bool \<times> reason" where
  "shouldSwitch config h currentBandwidth bufferLevel healthScore now current target =
     (case target of
        None \<Rightarrow> (False, ABR_desactive)
      | Some tgt \<Rightarrow>
          if \<not> enabled config then (False, ABR_desactive)
          else
            let timeSinceLastSwitch = now - lastSwitchTimeRef h in
            if timeSinceLastSwitch < minSwitchInterval config then (False, Trop_tot_pour_changer)
            else
              (case current of
                 None \<Rightarrow> (True, Initialisation_qualite)
               | Some cur \<Rightarrow>
                   if bandwidth cur = bandwidth tgt then (False, Qualite_deja_optimale)
                   else if bufferLevel < bufferTargetDown config \<and> bandwidth tgt < bandwidth cur
                     then (True, Buffer_critique_downgrade_urgent)
                   else if healthScore < 50 \<and> bandwidth tgt < bandwidth cur
                     then (True, Sante_faible_downgrade_recommande)
                   else if bandwidth tgt > bandwidth cur then
                     (if bufferLevel < bufferTargetUp config
                        then (False, Buffer_insuffisant_pour_upgrade)
                      else if healthScore < 70 then (False, Sante_insuffisante_pour_upgrade)
                      else if stableCountRef h < 2 then (False, Conditions_pas_encore_stables)
                      else (True, Conditions_optimales_upgrade))
                   else if bandwidth tgt < bandwidth cur \<and>
                           currentBandwidth < (bandwidth cur / 1000000) * 1.2
                     then (True, Bande_passante_insuffisante)
                   else (False, Conditions_non_reunies)))"



text \<open>
  The body of the \<open>setInterval\<close> callback (lines 141-196), run every 2000 ms with the
  props of the current render; \<open>capturedBandwidth\<close> is the estimate that the memoised
  \<open>shouldSwitch\<close> holds, which is \<open>currentBandwidth\<close> itself when the function was
  created in the current render.
\<close>

definition decisionTick ::
  "(real \<Rightarrow> StreamQuality list \<Rightarrow> StreamQuality option) \<Rightarrow> ABRConfig \<Rightarrow>
   StreamQuality list \<Rightarrow> real \<Rightarrow> real \<Rightarrow> real \<Rightarrow> real \<Rightarrow> real \<Rightarrow> ABRHook \<Rightarrow>
   ABRHook" where
  "decisionTick recommendQuality config availableQualities currentBandwidth bufferLevel
       healthScore capturedBandwidth now h =
     (case determineOptimalQuality recommendQuality config availableQualities
             currentBandwidth bufferLevel healthScore of
        None \<Rightarrow> h
      | Some optimalQuality \<Rightarrow>
          (case shouldSwitch config h capturedBandwidth bufferLevel healthScore now
                  (currentQuality (abrState h)) (Some optimalQuality) of
             (should, why) \<Rightarrow>
               if should then
                 h\<lparr>abrState := (abrState h)\<lparr>targetQuality := Some optimalQuality,
                                             isAdapting := True, adaptationReason := why\<rparr>,
                   adaptationTimerRef := Some (optimalQuality, why)\<rparr>
               else
                 h\<lparr>stableCountRef := stableCountRef h + 1,
                   adaptationTimerRef := None,
                   abrState := (abrState h)\<lparr>targetQuality := None, isAdapting := False,
                                             adaptationReason := why\<rparr>\<rparr>))"

text \<open>
  The settle timer's callback (lines 161-179): the commit of a switch.  \<open>now\<close> is the
  clock read of line 164.
\<close>

definition adaptationTimerFires :: "real \<Rightarrow> ABRHook \<Rightarrow> ABRHook" where
  "adaptationTimerFires now h =
     (case adaptationTimerRef h of
        None \<Rightarrow> h
      | Some (optimalQuality, why) \<Rightarrow>
          h\<lparr>switchCountRef := switchCountRef h + 1,
            lastSwitchTimeRef := now,
            stableCountRef := 0,
            adaptationTimerRef := None,
            abrState := \<lparr>currentQuality = Some optimalQuality, targetQuality = None,
                          isAdapting = False, adaptationReason = Empty_reason,
                          switchCount = switchCountRef h + 1\<rparr>\<rparr>)"

text \<open>The effect's cleanup (lines 198-203) clears the pending settle timer.\<close>

definition effectCleanup :: "ABRHook \<Rightarrow> ABRHook" where
  "effectCleanup h = h\<lparr>adaptationTimerRef := None\<rparr>"

text \<open>\<open>setManualQuality\<close> (lines 206-215).\<close>

definition setManualQuality :: "StreamQuality option \<Rightarrow> ABRHook \<Rightarrow> ABRHook" where
  "setManualQuality quality h =
     h\<lparr>abrState := \<lparr>currentQuality = quality, targetQuality = None, isAdapting = False,
                    adaptationReason = Manuel, switchCount = switchCountRef h\<rparr>,
       stableCountRef := 0\<rparr>"

text \<open>
  A run of the hook is a list of timed events: each entry is the clock at the event and
  what happened.  A decision tick carries the props of the render it runs in
  (\<open>availableQualities\<close>, \<open>currentBandwidth\<close>, \<open>bufferLevel\<close>, \<open>healthScore\<close>) and the
  estimate the memoised \<open>shouldSwitch\<close> holds, which a run leaves free.  The
  settle timer is allowed to fire at any time after it was armed, which covers the
  delay of \<open>switchThreshold * 1000\<close> ms the source gives it.
\<close>

datatype ABREvent =
    DecisionTick "StreamQuality list" real real real real
  | AdaptationTimerFires
  | EffectCleanup
  | SetManualQuality "StreamQuality option"

fun abrStep ::
  "(real \<Rightarrow> StreamQuality list \<Rightarrow> StreamQuality option) \<Rightarrow> ABRConfig \<Rightarrow>
   real \<times> ABREvent \<Rightarrow> ABRHook \<Rightarrow> ABRHook" where
  "abrStep recommendQuality config (now, DecisionTick qualities bw buf hs captured) h =
     decisionTick recommendQuality config qualities bw buf hs captured now h"
| "abrStep recommendQuality config (now, AdaptationTimerFires) h = adaptationTimerFires now h"
| "abrStep recommendQuality config (now, EffectCleanup) h = effectCleanup h"
| "abrStep recommendQuality config (now, SetManualQuality quality) h = setManualQuality quality h"

fun abrRun ::
  "(real \<Rightarrow> StreamQuality list \<Rightarrow> StreamQuality option) \<Rightarrow> ABRConfig \<Rightarrow>
   (real \<times> ABREvent) list \<Rightarrow> ABRHook \<Rightarrow> ABRHook" where
  "abrRun recommendQuality config [] h = h"
| "abrRun recommendQuality config (e # es) h =
     abrRun recommendQuality config es (abrStep recommendQuality config e h)"

text \<open>
  The clock values at which a run commits a switch: the times of the events at which
  the settle timer fires while it is pending.
\<close>

fun commitTimes ::
  "(real \<Rightarrow> StreamQuality list \<Rightarrow> StreamQuality option) \<Rightarrow> ABRConfig \<Rightarrow>
   (real \<times> ABREvent) list \<Rightarrow> ABRHook \<Rightarrow> real list" where
  "commitTimes recommendQuality config [] h = []"
| "commitTimes recommendQuality config (e # es) h =
     (if snd e = AdaptationTimerFires \<and> adaptationTimerRef h \<noteq> None then [fst e] else []) @
     commitTimes recommendQuality config es (abrStep recommendQuality config e h)"

text \<open>No two entries of a list of clock values are less than \<open>d\<close> apart.\<close>

fun spacedBy :: "real \<Rightarrow> real list \<Rightarrow> bool" where
  "spacedBy d [] = True"
| "spacedBy d (t # ts) = (list_all (\<lambda>u. d \<le> u - t) ts \<and> spacedBy d ts)"

section \<open>Health monitor: \<open>src/hooks/useHealthMonitor.ts\<close>\<close>

datatype healthLevel = Excellent | Good | Warning | Critical

text \<open>
  The entries of \<open>issues\<close> and \<open>recommendations\<close>: 'Buffer critique', 'Buffer faible',
  '<rate>% frames perdus', '<count> interruptions', 'Lecture interrompue'; 'Reduire la
  qualite', 'Fermer autres onglets', 'Verifier connexion reseau'.  The two formatted
  entries keep the number they print.
\<close>

datatype issue =
    Buffer_critique
  | Buffer_faible
  | Frames_perdus real
  | Interruptions nat
  | Lecture_interrompue

datatype recommendation =
    Reduire_la_qualite
  | Fermer_autres_onglets
  | Verifier_connexion_reseau

record HealthStatus =
  score :: int
  level :: healthLevel
  issues :: "issue list"
  recommendations :: "recommendation list"
  stallCount :: nat
  bufferingTime :: real
  lastStallTime :: real

record HealthMonitorConfig =
  checkInterval :: real
  stallThreshold :: real
  criticalBufferLevel :: real
  warningBufferLevel :: real

definition defaultHealthMonitorConfig :: HealthMonitorConfig where
  "defaultHealthMonitorConfig =
     \<lparr>checkInterval = 1000, stallThreshold = 2000, criticalBufferLevel = 1,
      warningBufferLevel = 3\<rparr>"

text \<open>
  What a tick reads from the video element: \<open>bufferedEnd\<close> is \<open>buffered.end(0)\<close> when
  \<open>buffered.length > 0\<close>; \<open>playbackQuality\<close> is the pair \<open>(droppedVideoFrames,
  totalVideoFrames)\<close> when \<open>getVideoPlaybackQuality\<close> exists.
\<close>

record VideoElement =
  currentTime :: real
  paused :: bool
  bufferedEnd :: "real option"
  playbackQuality :: "(real \<times> real) option"

record HealthMonitor =
  health :: HealthStatus
  lastTimeRef :: real
  lastCheckRef :: real
  stalledSinceRef :: "real option"
  totalBufferingTimeRef :: real
  stallCountRef :: nat

text \<open>\<open>lastCheckRef\<close> starts as the clock at mount (line 40).\<close>

definition initialHealthStatus :: HealthStatus where
  "initialHealthStatus =
     \<lparr>score = 100, level = Excellent, issues = [], recommendations = [], stallCount = 0,
      bufferingTime = 0, lastStallTime = 0\<rparr>"

definition initialHealthMonitor :: "real \<Rightarrow> HealthMonitor" where
  "initialHealthMonitor now =
     \<lparr>health = initialHealthStatus, lastTimeRef = 0, lastCheckRef = now,
      stalledSinceRef = None, totalBufferingTimeRef = 0, stallCountRef = 0\<rparr>"

text \<open>
  The quotient of two numbers in JavaScript: a division by zero gives an infinity, or
  \<open>NaN\<close> for \<open>0/0\<close>; no comparison with \<open>NaN\<close> holds.
\<close>

datatype jsnum = Finite real | PosInfinity | NegInfinity | NaN

definition js_div :: "real \<Rightarrow> real \<Rightarrow> jsnum" where
  "js_div a b =
     (if b \<noteq> 0 then Finite (a / b)
      else if a > 0 then PosInfinity else if a < 0 then NegInfinity else NaN)"

fun js_gt :: "jsnum \<Rightarrow> real \<Rightarrow> bool" where
  "js_gt (Finite x) c = (x > c)"
| "js_gt PosInfinity c = True"
| "js_gt NegInfinity c = False"
| "js_gt NaN c = False"

text \<open>
  \<open>calculateScore\<close> (lines 45-91); \<open>now\<close> is the clock read of line 83 and \<open>lastCheck\<close>
  the value of \<open>lastCheckRef\<close> at the call.
\<close>

definition calculateScore ::
  "HealthMonitorConfig \<Rightarrow> real \<Rightarrow> real \<Rightarrow> real \<Rightarrow> real \<Rightarrow> nat \<Rightarrow> real \<Rightarrow> int" where
  "calculateScore config lastCheck now bufferLevel droppedFrameRate stallCnt bufferingTme =
     (let score0 = 100;
          score1 =
            (if bufferLevel < 0.5 then score0 - 40
             else if bufferLevel < criticalBufferLevel config then score0 - 25
             else if bufferLevel < warningBufferLevel config then score0 - 15
             else if bufferLevel < 5 then score0 - 5
             else score0);
          score2 =
            (if droppedFrameRate > 5 then score1 - 30
             else if droppedFrameRate > 2 then score1 - 15
             else if droppedFrameRate > 0.5 then score1 - 5
             else score1);
          score3 =
            (if stallCnt > 8 then score2 - 20
             else if stallCnt > 4 then score2 - 10
             else if stallCnt > 1 then score2 - 5
             else score2);
          bufferingRatio = js_div bufferingTme (now - lastCheck);
          score4 =
            (if js_gt bufferingRatio 0.3 then score3 - 10
             else if js_gt bufferingRatio 0.15 then score3 - 5
             else score3)
      in max 0 (min 100 score4))"

text \<open>The level of a score (lines 142-145).\<close>

definition levelOf :: "int \<Rightarrow> healthLevel" where
  "levelOf scr =
     (if scr < 30 then Critical else if scr < 60 then Warning
      else if scr < 85 then Good else Excellent)"

text \<open>
  \<open>!stalledSinceRef.current\<close>: the ref is \<open>number | null\<close>, and both \<open>null\<close> and \<open>0\<close> are
  falsy.
\<close>

fun falsy :: "real option \<Rightarrow> bool" where
  "falsy None = True"
| "falsy (Some t) = (t = 0)"

text \<open>
  Stall detection (lines 100-117): the flag \<open>isStalled\<close> and the refs it leaves.
\<close>

definition detectStall ::
  "HealthMonitorConfig \<Rightarrow> VideoElement \<Rightarrow> real \<Rightarrow> HealthMonitor \<Rightarrow> bool \<times> HealthMonitor" where
  "detectStall config video now m =
     (let timeSinceLastCheck = now - lastCheckRef m;
          progressMade = currentTime video - lastTimeRef m
      in if \<not> paused video \<and> progressMade = 0 \<and> timeSinceLastCheck > stallThreshold config
         then
           (True,
            (if falsy (stalledSinceRef m)
             then m\<lparr>stalledSinceRef := Some now, stallCountRef := stallCountRef m + 1\<rparr>
             else m)
              \<lparr>totalBufferingTimeRef := totalBufferingTimeRef m + timeSinceLastCheck\<rparr>)
         else if \<not> falsy (stalledSinceRef m) \<and> progressMade > 0
         then (False, m\<lparr>stalledSinceRef := None\<rparr>)
         else (False, m))"

text \<open>
  The \<open>setInterval\<close> callback (lines 96-192): \<open>now\<close> is the clock read of line 97 and
  \<open>now2\<close> the one inside \<open>calculateScore\<close>.
\<close>

definition monitorTick ::
  "HealthMonitorConfig \<Rightarrow> VideoElement \<Rightarrow> real \<Rightarrow> real \<Rightarrow> HealthMonitor \<Rightarrow> HealthMonitor" where
  "monitorTick config video now now2 m =
     (case detectStall config video now m of
        (isStalled, m1) \<Rightarrow>
          let bufferLevel =
                (case bufferedEnd video of None \<Rightarrow> 0 | Some e \<Rightarrow> e - currentTime video);
              droppedFrameRate =
                (case playbackQuality video of
                   None \<Rightarrow> 0
                 | Some (droppedVideoFrames, totalVideoFrames) \<Rightarrow>
                     if totalVideoFrames > 0
                     then (droppedVideoFrames / totalVideoFrames) * 100 else 0);
              scr = calculateScore config (lastCheckRef m1) now2 bufferLevel droppedFrameRate
                      (stallCountRef m1) (totalBufferingTimeRef m1);
              iss =
                (if bufferLevel < criticalBufferLevel config then [Buffer_critique]
                 else if bufferLevel < warningBufferLevel config then [Buffer_faible] else []) @
                (if droppedFrameRate > 2 then [Frames_perdus droppedFrameRate] else []) @
                (if stallCountRef m1 > 2 then [Interruptions (stallCountRef m1)] else []) @
                (if isStalled then [Lecture_interrompue] else []);
              recs =
                (if bufferLevel < warningBufferLevel config then [Reduire_la_qualite] else []) @
                (if droppedFrameRate > 2 then [Fermer_autres_onglets] else []) @
                (if stallCountRef m1 > 3 then [Verifier_connexion_reseau] else [])
          in m1\<lparr>health :=
                  \<lparr>score = scr, level = levelOf scr, issues = iss, recommendations = recs,
                   stallCount = stallCountRef m1,
                   bufferingTime = totalBufferingTimeRef m1,
                   lastStallTime = (case stalledSinceRef m1 of None \<Rightarrow> 0 | Some t \<Rightarrow> t)\<rparr>,
                lastTimeRef := currentTime video,
                lastCheckRef := now\<rparr>)"

section \<open>Error recovery: \<open>src/hooks/useErrorRecovery.ts\<close>\<close>

record RetryConfig =
  maxRetries :: real
  baseDelay :: real
  maxDelay :: real
  globalTimeout :: real

definition defaultRetryConfig :: RetryConfig where
  "defaultRetryConfig =
     \<lparr>maxRetries = 5, baseDelay = 100, maxDelay = 10000, globalTimeout = 30000\<rparr>"

record ErrorState =
  errorCount :: nat
  lastError :: "string option"
  isRecovering :: bool
  nextRetryDelay :: real
  recoveryStartTime :: real

text \<open>
  One instance of the hook.  Each timer ref holds the delay of the pending timer, or
  \<open>None\<close> when no timer is pending (none armed, cleared, or fired).
\<close>

record ErrorRecovery =
  errorState :: ErrorState
  retryTimeoutRef :: "real option"
  globalTimeoutRef :: "real option"

definition resetErrorState :: "RetryConfig \<Rightarrow> ErrorState" where
  "resetErrorState config =
     \<lparr>errorCount = 0, lastError = None, isRecovering = False,
      nextRetryDelay = baseDelay config, recoveryStartTime = 0\<rparr>"

definition initialErrorRecovery :: "RetryConfig \<Rightarrow> ErrorRecovery" where
  "initialErrorRecovery config =
     \<lparr>errorState = resetErrorState config, retryTimeoutRef = None, globalTimeoutRef = None\<rparr>"

text \<open>\<open>Math.round\<close>: the nearest integer, a half rounded up.\<close>

definition js_round :: "real \<Rightarrow> real" where
  "js_round x = of_int \<lfloor>x + 1 / 2\<rfloor>"

text \<open>
  \<open>calculateBackoff\<close> (lines 48-57); \<open>random\<close> is the draw of \<open>Math.random()\<close>, a number
  in \<open>[0, 1)\<close>.
\<close>

definition exponentialDelay :: "RetryConfig \<Rightarrow> nat \<Rightarrow> real" where
  "exponentialDelay config attemptNumber =
     min (baseDelay config * 2 ^ attemptNumber) (maxDelay config)"

definition calculateBackoff :: "RetryConfig \<Rightarrow> nat \<Rightarrow> real \<Rightarrow> real" where
  "calculateBackoff config attemptNumber random =
     (let jitter = exponentialDelay config attemptNumber * 0.25 * (random - 0.5)
      in js_round (exponentialDelay config attemptNumber + jitter))"

text \<open>
  \<open>recordError\<close> (lines 59-74); \<open>now\<close> is the clock read of line 71, used when
  \<open>prev.recoveryStartTime\<close> is falsy, that is \<open>0\<close>.
\<close>

definition recordError ::
  "RetryConfig \<Rightarrow> string \<Rightarrow> real \<Rightarrow> real \<Rightarrow> ErrorRecovery \<Rightarrow> ErrorRecovery" where
  "recordError config error random now s =
     (let prev = errorState s;
          newCount = errorCount prev + 1;
          nextDelay = calculateBackoff config newCount random
      in s\<lparr>errorState :=
             \<lparr>errorCount = newCount, lastError = Some error, isRecovering = False,
              nextRetryDelay = nextDelay,
              recoveryStartTime =
                (if recoveryStartTime prev \<noteq> 0 then recoveryStartTime prev else now)\<rparr>\<rparr>)"

text \<open>
  \<open>attemptRecovery\<close> up to the moment it returns its promise (lines 76-163): either the
  promise is already rejected, with the message of the error, or the two timers are
  armed.  \<open>now1\<close>, \<open>now2\<close>, \<open>now3\<close> are the clock reads of lines 87, 88 and 102.
\<close>

datatype attemptOutcome = Rejected string | Scheduled

definition attemptRecovery ::
  "RetryConfig \<Rightarrow> real \<Rightarrow> real \<Rightarrow> real \<Rightarrow> ErrorRecovery \<Rightarrow> attemptOutcome \<times> ErrorRecovery" where
  "attemptRecovery config now1 now2 now3 s =
     (if real (errorCount (errorState s)) \<ge> maxRetries config
      then (Rejected ''Max retries exceeded'',
            s\<lparr>errorState := (errorState s)\<lparr>isRecovering := False\<rparr>\<rparr>)
      else
        let startTime =
              (if recoveryStartTime (errorState s) \<noteq> 0
               then recoveryStartTime (errorState s) else now1);
            elapsed = now2 - startTime
        in if elapsed > globalTimeout config
           then (Rejected ''Recovery timeout'',
                 s\<lparr>errorState := (errorState s)\<lparr>isRecovering := False\<rparr>\<rparr>)
           else
             (Scheduled,
              s\<lparr>errorState :=
                  (errorState s)
                    \<lparr>isRecovering := True,
                     recoveryStartTime :=
                       (if recoveryStartTime (errorState s) \<noteq> 0
                        then recoveryStartTime (errorState s) else now3)\<rparr>,
                globalTimeoutRef := Some (globalTimeout config),
                retryTimeoutRef := Some (nextRetryDelay (errorState s))\<rparr>))"

text \<open>The global timer's callback (lines 114-122); it rejects the promise.\<close>

definition globalTimeoutFires :: "ErrorRecovery \<Rightarrow> ErrorRecovery" where
  "globalTimeoutFires s =
     (case globalTimeoutRef s of
        None \<Rightarrow> s
      | Some d \<Rightarrow>
          s\<lparr>errorState := (errorState s)\<lparr>isRecovering := False,
                                          lastError := Some ''Timeout global''\<rparr>,
            globalTimeoutRef := None\<rparr>)"

text \<open>
  The retry timer's callback (lines 125-162) in two steps: the timer fires and calls
  \<open>recoveryFn\<close>; later the awaited call settles.  \<open>Threw_Error msg\<close> is a rejection
  with an \<open>Error\<close> whose message is \<open>msg\<close>, \<open>Threw_other\<close> one with any other value.
\<close>

datatype actionResult = Resolved | Threw_Error string | Threw_other

definition retryTimeoutFires :: "ErrorRecovery \<Rightarrow> ErrorRecovery" where
  "retryTimeoutFires s = s\<lparr>retryTimeoutRef := None\<rparr>"

fun recoveryFnSettles :: "RetryConfig \<Rightarrow> actionResult \<Rightarrow> ErrorRecovery \<Rightarrow> ErrorRecovery" where
  "recoveryFnSettles config Resolved s =
     s\<lparr>globalTimeoutRef := None,
       errorState :=
         \<lparr>errorCount = 0, lastError = None, isRecovering = False,
          nextRetryDelay = baseDelay config, recoveryStartTime = 0\<rparr>\<rparr>"
| "recoveryFnSettles config (Threw_Error msg) s =
     s\<lparr>globalTimeoutRef := None,
       errorState := (errorState s)\<lparr>isRecovering := False, lastError := Some msg\<rparr>\<rparr>"
| "recoveryFnSettles config Threw_other s =
     s\<lparr>globalTimeoutRef := None,
       errorState := (errorState s)\<lparr>isRecovering := False,
                                     lastError := Some ''Unknown error''\<rparr>\<rparr>"

text \<open>\<open>reset\<close> (lines 166-183), \<open>forceStop\<close> (lines 185-199), \<open>canRetry\<close> (line 201).\<close>

definition reset :: "RetryConfig \<Rightarrow> ErrorRecovery \<Rightarrow> ErrorRecovery" where
  "reset config s =
     \<lparr>errorState = resetErrorState config, retryTimeoutRef = None, globalTimeoutRef = None\<rparr>"

definition forceStop :: "ErrorRecovery \<Rightarrow> ErrorRecovery" where
  "forceStop s =
     \<lparr>errorState = (errorState s)\<lparr>isRecovering := False\<rparr>,
      retryTimeoutRef = None, globalTimeoutRef = None\<rparr>"

definition canRetry :: "RetryConfig \<Rightarrow> ErrorRecovery \<Rightarrow> bool" where
  "canRetry config s = (real (errorCount (errorState s)) < maxRetries config)"

text \<open>\<open>n\<close> calls of \<open>recordError\<close>, one per entry \<open>(error, random, now)\<close>.\<close>

fun recordErrors ::
  "RetryConfig \<Rightarrow> (string \<times> real \<times> real) list \<Rightarrow> ErrorRecovery \<Rightarrow> ErrorRecovery" where
  "recordErrors config [] s = s"
| "recordErrors config ((error, random, now) # es) s =
     recordErrors config es (recordError config error random now s)"

section \<open>Bandwidth estimator: \<open>src/unnamed/part_001\<close> (\<open>useRealBandwidth\<close>)\<close>

record Sample =
  bytes :: nat
  time :: real

datatype trend = Stable | Increasing | Decreasing

record BandwidthData =
  currentBitrate :: real
  averageBitrate :: real
  downloadSpeed :: real
  trend :: trend

definition initialBandwidth :: BandwidthData where
  "initialBandwidth =
     \<lparr>currentBitrate = 0, averageBitrate = 0, downloadSpeed = 0, trend = Stable\<rparr>"

text \<open>
  What the observer reads of a \<open>PerformanceResourceTiming\<close> entry: whether its
  lower-cased name contains one of the ten markers of lines 34-43, and its two sizes
  (unsigned integers).
\<close>

record ResourceEntry =
  nameIsVideo :: bool
  transferSize :: nat
  encodedBodySize :: nat

text \<open>
  The observer's callback (lines 24-60) on the entries of one notification: a video
  resource with a positive size is pushed, and the samples are pruned to the last 30
  seconds on each push.
\<close>

fun observeEntries :: "real \<Rightarrow> ResourceEntry list \<Rightarrow> Sample list \<Rightarrow> Sample list" where
  "observeEntries now [] samples = samples"
| "observeEntries now (resource # entries) samples =
     (let isVideoResource = (nameIsVideo resource \<or> transferSize resource > 10000);
          byts = (if transferSize resource \<noteq> 0 then transferSize resource
                  else encodedBodySize resource)
      in observeEntries now entries
           (if isVideoResource \<and> byts > 0
            then filter (\<lambda>sample. now - time sample < 30000)
                   (samples @ [\<lparr>bytes = byts, time = now\<rparr>])
            else samples))"

text \<open>\<open>samples.reduce((sum, s) => sum + s.bytes, 0)\<close>.\<close>

definition totalBytes :: "Sample list \<Rightarrow> real" where
  "totalBytes samples = foldl (\<lambda>sum s. sum + real (bytes s)) 0 samples"

text \<open>
  The bitrate of one half of the window (lines 107-113, written twice in the source):
  megabits per second over the span from its first to its last sample, \<open>0\<close> when the
  span is not positive.
\<close>

definition halfRate :: "Sample list \<Rightarrow> real" where
  "halfRate half =
     (let halfBytes = totalBytes half;
          halfTime = (time (last half) - time (hd half)) / 1000
      in if halfTime > 0 then (halfBytes * 8) / (halfTime * 1000000) else 0)"

text \<open>
  The \<open>setInterval\<close> callback (lines 71-131): \<open>samples\<close> is \<open>samplesRef.current\<close>, \<open>prev\<close>
  the published state, which the early return of line 72 leaves as it is.
\<close>

definition bandwidthTick :: "real \<Rightarrow> Sample list \<Rightarrow> BandwidthData \<Rightarrow> BandwidthData" where
  "bandwidthTick now samples prev =
     (if length samples < 2 then prev
      else
        let recentSamples = filter (\<lambda>s. now - time s < 2000) samples;
            currentBitrte =
              (if length recentSamples \<ge> 2 then
                 (let timeSpan = (now - time (hd recentSamples)) / 1000
                  in if timeSpan > 0
                     then (totalBytes recentSamples * 8) / (timeSpan * 1000000) else 0)
               else 0);
            averageBitrte =
              (if length samples \<ge> 2 then
                 (let timeSpan = (time (last samples) - time (hd samples)) / 1000
                  in if timeSpan > 0
                     then (totalBytes samples * 8) / (timeSpan * 1000000) else 0)
               else 0);
            downloadSpd = currentBitrte;
            trnd =
              (if length samples \<ge> 10 then
                 (let mid = length samples div 2;
                      oldSamples = take mid samples;
                      newSamples = drop mid samples;
                      oldRate = halfRate oldSamples;
                      newRate = halfRate newSamples
                  in if newRate > oldRate * 1.3 then Increasing
                     else if newRate < oldRate * 0.7 then Decreasing
                     else Stable)
               else Stable)
        in \<lparr>currentBitrate = max 0 currentBitrte, averageBitrate = max 0 averageBitrte,
            downloadSpeed = max 0 downloadSpd, trend = trnd\<rparr>)"

section \<open>The score and level as the specification words them\<close>

text \<open>
  The deductions of the health score in the words of the specification, with the
  default buffer thresholds of one and three seconds, for comparison with
  \<open>calculateScore\<close>.  The buffering ratio is the JavaScript quotient the code computes.
\<close>

definition spec_bufferDeduction :: "real \<Rightarrow> int" where
  "spec_bufferDeduction b =
     (if b < 0.5 then 40 else if b < 1 then 25 else if b < 3 then 15
      else if b < 5 then 5 else 0)"

definition spec_dropDeduction :: "real \<Rightarrow> int" where
  "spec_dropDeduction r = (if r > 5 then 30 else if r > 2 then 15 else if r > 0.5 then 5 else 0)"

definition spec_stallDeduction :: "nat \<Rightarrow> int" where
  "spec_stallDeduction n = (if n > 8 then 20 else if n > 4 then 10 else if n > 1 then 5 else 0)"

definition spec_ratioDeduction :: "jsnum \<Rightarrow> int" where
  "spec_ratioDeduction q = (if js_gt q 0.3 then 10 else if js_gt q 0.15 then 5 else 0)"

definition spec_clamp :: "int \<Rightarrow> int" where
  "spec_clamp x = (if x < 0 then 0 else if x > 100 then 100 else x)"

definition spec_healthScore :: "real \<Rightarrow> real \<Rightarrow> nat \<Rightarrow> jsnum \<Rightarrow> int" where
  "spec_healthScore b r n q =
     spec_clamp (100 - (spec_bufferDeduction b + spec_dropDeduction r +
                        spec_stallDeduction n + spec_ratioDeduction q))"

section \<open>Properties of the adaptive bitrate engine\<close>

subsection \<open>The safety factor\<close>

text \<open>
  Claim C1, as the code has it.  The safety factor that \<open>determineOptimalQuality\<close>
  applies to the bandwidth estimate is 0.9 when the health score is above 80, 0.75
  when it is above 60 and at most 80, and 0.6 when it is at most 60; the product of
  the estimate, this factor and the buffer factor is what \<open>recommendQuality\<close> receives.
  Both comparisons are strict.
\<close>

theorem C1_safetyFactor_strict_thresholds:
  "(80 < healthScore \<longrightarrow> safetyFactor healthScore = 0.9) \<and>
   (60 < healthScore \<and> healthScore \<le> 80 \<longrightarrow> safetyFactor healthScore = 0.75) \<and>
   (healthScore \<le> 60 \<longrightarrow> safetyFactor healthScore = 0.6) \<and>
   (availableQualities \<noteq> [] \<and> enabled config \<longrightarrow>
      determineOptimalQuality recommendQuality config availableQualities currentBandwidth
          bufferLevel healthScore =
        recommendQuality
          (currentBandwidth * safetyFactor healthScore *
             (if bufferLevel < bufferTargetDown config then 0.7
              else if bufferLevel < bufferTargetUp config then 0.85 else 1))
          availableQualities)"
  by (simp add: safetyFactor_def determineOptimalQuality_def Let_def)

theorem C1_safetyFactor_strict_thresholds_witness:
  "safetyFactor 90 = 0.9 \<and> safetyFactor 80 = 0.75 \<and> safetyFactor 60 = 0.6 \<and>
   determineOptimalQuality (\<lambda>target qs. Some \<lparr>label = ''probe'', bandwidth = target\<rparr>)
       defaultABRConfig [\<lparr>label = ''480p'', bandwidth = 1000000\<rparr>] 10 10 80 =
     Some \<lparr>label = ''probe'', bandwidth = 7.5\<rparr>"
proof -
  have a: "safetyFactor 90 = 0.9"
    using C1_safetyFactor_strict_thresholds [of 90] by simp
  have b: "safetyFactor 80 = 0.75"
    using C1_safetyFactor_strict_thresholds [of 80] by simp
  have c: "safetyFactor 60 = 0.6"
    using C1_safetyFactor_strict_thresholds [of 60] by simp
  have d: "determineOptimalQuality (\<lambda>target qs. Some \<lparr>label = ''probe'', bandwidth = target\<rparr>)
       defaultABRConfig [\<lparr>label = ''480p'', bandwidth = 1000000\<rparr>] 10 10 80 =
     Some \<lparr>label = ''probe'', bandwidth = 7.5\<rparr>"
    using C1_safetyFactor_strict_thresholds
      [of 80 "[\<lparr>label = ''480p'', bandwidth = 1000000\<rparr>]" defaultABRConfig
          "\<lambda>target qs. Some \<lparr>label = ''probe'', bandwidth = target\<rparr>" 10 10] b
    by (simp add: defaultABRConfig_def)
  from a b c d show ?thesis by simp
qed

text \<open>
  Claim C1 as the specification words it puts a score of exactly 80 in the 0.9 tier and
  a score of exactly 60 in the 0.75 tier.  The code gives 0.75 at 80 and 0.6 at 60.
\<close>

theorem C1_factor_at_80_and_60_counterexample:
  "safetyFactor 80 = 0.75 \<and> safetyFactor 80 \<noteq> 0.9 \<and>
   safetyFactor 60 = 0.6 \<and> safetyFactor 60 \<noteq> 0.75"
  by (simp add: safetyFactor_def)

subsection \<open>The last rule of the switch gate\<close>





subsection \<open>Spacing of committed switches\<close>

lemma shouldSwitch_too_early:
  "now - lastSwitchTimeRef h < minSwitchInterval config \<Longrightarrow>
   shouldSwitch config h bw buf hs now cur tgt =
     (False, if tgt = None \<or> \<not> enabled config then ABR_desactive else Trop_tot_pour_changer)"
  by (simp add: shouldSwitch_def split: option.splits)

lemma shouldSwitch_accepts_late:
  "fst (shouldSwitch config h bw buf hs now cur tgt) \<Longrightarrow>
   minSwitchInterval config \<le> now - lastSwitchTimeRef h"
  by (rule ccontr) (simp add: shouldSwitch_too_early)

lemma decisionTick_lastSwitchTime [simp]:
  "lastSwitchTimeRef (decisionTick rq config qs bw buf hs cb now h) = lastSwitchTimeRef h"
  by (simp add: decisionTick_def split: option.splits prod.splits)

text \<open>A timer that is pending after a tick was pending before it, or was armed by it.\<close>

lemma decisionTick_pending:
  assumes "adaptationTimerRef (decisionTick rq config qs bw buf hs cb now h) \<noteq> None"
  shows "adaptationTimerRef h \<noteq> None \<or> minSwitchInterval config \<le> now - lastSwitchTimeRef h"
proof (cases "determineOptimalQuality rq config qs bw buf hs")
  case None
  with assms show ?thesis by (simp add: decisionTick_def)
next
  case (Some q)
  obtain should why where sw:
    "shouldSwitch config h cb buf hs now (currentQuality (abrState h)) (Some q) = (should, why)"
    by (cases "shouldSwitch config h cb buf hs now (currentQuality (abrState h)) (Some q)")
  show ?thesis
  proof (cases should)
    case True
    with sw shouldSwitch_accepts_late [of config h cb buf hs now "currentQuality (abrState h)" "Some q"]
    show ?thesis by simp
  next
    case False
    with assms Some sw show ?thesis by (simp add: decisionTick_def)
  qed
qed

lemma adaptationTimerFires_idle:
  "adaptationTimerRef h = None \<Longrightarrow> adaptationTimerFires now h = h"
  by (simp add: adaptationTimerFires_def)

text \<open>
  The invariant of a run: while a settle timer is pending, the switch interval had
  elapsed at the last event.  Every event other than a commit keeps the time of the
  last switch.
\<close>

lemma abrStep_keeps_gate:
  assumes "c \<le> t"
    and "adaptationTimerRef h \<noteq> None \<longrightarrow> minSwitchInterval config \<le> c - lastSwitchTimeRef h"
    and "\<not> (a = AdaptationTimerFires \<and> adaptationTimerRef h \<noteq> None)"
  shows "lastSwitchTimeRef (abrStep rq config (t, a) h) = lastSwitchTimeRef h \<and>
         (adaptationTimerRef (abrStep rq config (t, a) h) \<noteq> None \<longrightarrow>
            minSwitchInterval config \<le> t - lastSwitchTimeRef h)"
proof (cases a)
  case (DecisionTick qs bw buf hs cb)
  with assms decisionTick_pending [of rq config qs bw buf hs cb t h] show ?thesis by auto
next
  case AdaptationTimerFires
  with assms have "adaptationTimerRef h = None" by (cases "adaptationTimerRef h") auto
  with AdaptationTimerFires show ?thesis by (simp add: adaptationTimerFires_idle)
next
  case EffectCleanup
  then show ?thesis by (simp add: effectCleanup_def)
next
  case (SetManualQuality q)
  with assms show ?thesis by (auto simp: setManualQuality_def)
qed

lemma abrStep_commit:
  assumes "adaptationTimerRef h \<noteq> None"
  shows "lastSwitchTimeRef (abrStep rq config (t, AdaptationTimerFires) h) = t \<and>
         adaptationTimerRef (abrStep rq config (t, AdaptationTimerFires) h) = None"
  using assms by (auto simp: adaptationTimerFires_def)

lemma commitTimes_after_clock:
  "sorted (c # map fst evs) \<Longrightarrow> \<forall>u \<in> set (commitTimes rq config evs h). c \<le> u"
proof (induction evs arbitrary: h c)
  case Nil
  then show ?case by simp
next
  case (Cons e es)
  from Cons.prems have "c \<le> fst e" and "sorted (fst e # map fst es)" by auto
  with Cons.IH [of "fst e" "abrStep rq config e h"] show ?case by fastforce
qed

lemma commitTimes_after_last_switch:
  assumes "sorted (c # map fst evs)"
    and "adaptationTimerRef h \<noteq> None \<longrightarrow> minSwitchInterval config \<le> c - lastSwitchTimeRef h"
  shows "list_all (\<lambda>u. minSwitchInterval config \<le> u - lastSwitchTimeRef h)
           (commitTimes rq config evs h) \<and>
         spacedBy (minSwitchInterval config) (commitTimes rq config evs h)"
  using assms
proof (induction evs arbitrary: h c)
  case Nil
  then show ?case by simp
next
  case (Cons e es)
  obtain t a where e: "e = (t, a)" by (cases e)
  from Cons.prems e have ct: "c \<le> t" and srt: "sorted (t # map fst es)" by auto
  let ?h = "abrStep rq config e h"
  show ?case
  proof (cases "a = AdaptationTimerFires \<and> adaptationTimerRef h \<noteq> None")
    case True
    with abrStep_commit [of h rq config t] e
    have h': "lastSwitchTimeRef ?h = t" "adaptationTimerRef ?h = None" by auto
    from Cons.IH [of t ?h] srt h'
    have ih: "list_all (\<lambda>u. minSwitchInterval config \<le> u - t) (commitTimes rq config es ?h)"
      "spacedBy (minSwitchInterval config) (commitTimes rq config es ?h)" by auto
    from True Cons.prems(2) ct have first: "minSwitchInterval config \<le> t - lastSwitchTimeRef h"
      by auto
    from commitTimes_after_clock [OF srt, of rq config ?h] first
    have rest: "list_all (\<lambda>u. minSwitchInterval config \<le> u - lastSwitchTimeRef h)
                  (commitTimes rq config es ?h)"
      by (auto simp: list_all_iff)
    from True e first rest ih show ?thesis by simp
  next
    case False
    with abrStep_keeps_gate [OF ct Cons.prems(2), of a rq] e
    have h': "lastSwitchTimeRef ?h = lastSwitchTimeRef h"
      "adaptationTimerRef ?h \<noteq> None \<longrightarrow> minSwitchInterval config \<le> t - lastSwitchTimeRef ?h"
      by auto
    from Cons.IH [OF srt h'(2)] h'(1) False e show ?thesis by auto
  qed
qed

lemma lastSwitchTime_without_commit:
  "commitTimes rq config es g = [] \<Longrightarrow>
   lastSwitchTimeRef (abrRun rq config es g) = lastSwitchTimeRef g"
proof (induction es arbitrary: g)
  case Nil
  then show ?case by simp
next
  case (Cons x xs)
  obtain t a where x: "x = (t, a)" by (cases x)
  from Cons.prems x have nf: "\<not> (a = AdaptationTimerFires \<and> adaptationTimerRef g \<noteq> None)"
    and nil: "commitTimes rq config xs (abrStep rq config x g) = []"
    by (auto split: if_splits)
  have "lastSwitchTimeRef (abrStep rq config (t, a) g) = lastSwitchTimeRef g"
  proof (cases a)
    case AdaptationTimerFires
    with nf have "adaptationTimerRef g = None" by (cases "adaptationTimerRef g") auto
    with AdaptationTimerFires show ?thesis by (simp add: adaptationTimerFires_idle)
  qed (simp_all add: effectCleanup_def setManualQuality_def)
  with Cons.IH [OF nil] x show ?case by simp
qed

text \<open>\<open>lastSwitchTimeRef\<close> is the time of the last committed switch.\<close>

lemma lastSwitchTime_is_last_commit:
  "commitTimes rq config evs h \<noteq> [] \<Longrightarrow>
   lastSwitchTimeRef (abrRun rq config evs h) = last (commitTimes rq config evs h)"
proof (induction evs arbitrary: h)
  case Nil
  then show ?case by simp
next
  case (Cons e es)
  obtain t a where e: "e = (t, a)" by (cases e)
  let ?h = "abrStep rq config e h"
  show ?case
  proof (cases "commitTimes rq config es ?h = []")
    case False
    with Cons.IH [of ?h] show ?thesis by simp
  next
    case True
    with Cons.prems e have fires: "a = AdaptationTimerFires" "adaptationTimerRef h \<noteq> None"
      by (auto split: if_splits)
    from lastSwitchTime_without_commit [OF True]
      abrStep_commit [OF fires(2), of rq config t] fires True e
    show ?thesis by simp
  qed
qed

text \<open>
  Claim C6.  For every run of the hook whose events carry a clock that never goes back
  (decision ticks with any props, the settle timer firing, effect cleanups, manual
  overrides, in any order), no two committed switches are less than
  \<open>minSwitchInterval\<close> apart; \<open>lastSwitchTimeRef\<close> is the time of the last commit; and
  \<open>shouldSwitch\<close> rejects every candidate while less than \<open>minSwitchInterval\<close> has elapsed
  since \<open>lastSwitchTimeRef\<close>.
\<close>

theorem C6_switches_spaced_by_minSwitchInterval:
  assumes "sorted (map fst evs)"
  shows "spacedBy (minSwitchInterval config)
           (commitTimes recommendQuality config evs initialABRHook) \<and>
         (commitTimes recommendQuality config evs initialABRHook \<noteq> [] \<longrightarrow>
            lastSwitchTimeRef (abrRun recommendQuality config evs initialABRHook) =
              last (commitTimes recommendQuality config evs initialABRHook)) \<and>
         (now - lastSwitchTimeRef h < minSwitchInterval config \<longrightarrow>
            \<not> fst (shouldSwitch config h bw buf hs now cur tgt))"
proof -
  have "sorted ((if evs = [] then 0 else fst (hd evs)) # map fst evs)"
    using assms by (cases evs) auto
  moreover have "adaptationTimerRef initialABRHook = None"
    by (simp add: initialABRHook_def)
  ultimately have "spacedBy (minSwitchInterval config)
           (commitTimes recommendQuality config evs initialABRHook)"
    using commitTimes_after_last_switch
      [of "if evs = [] then 0 else fst (hd evs)" evs initialABRHook config recommendQuality]
    by simp
  then show ?thesis
    using lastSwitchTime_is_last_commit [of recommendQuality config evs initialABRHook]
      shouldSwitch_too_early [of now h config bw buf hs cur tgt]
    by simp
qed

theorem C6_switches_spaced_by_minSwitchInterval_witness:
  "sorted (map fst
     [(20000::real, DecisionTick [\<lparr>label = ''480p'', bandwidth = 1000000\<rparr>,
          \<lparr>label = ''720p'', bandwidth = 3000000\<rparr>] 10 10 90 10),
      (23000, AdaptationTimerFires),
      (25000, DecisionTick [\<lparr>label = ''480p'', bandwidth = 1000000\<rparr>,
          \<lparr>label = ''720p'', bandwidth = 3000000\<rparr>] 0.5 1 90 0.5),
      (40000, DecisionTick [\<lparr>label = ''480p'', bandwidth = 1000000\<rparr>,
          \<lparr>label = ''720p'', bandwidth = 3000000\<rparr>] 0.5 1 90 0.5),
      (43000, AdaptationTimerFires)]) \<and>
   commitTimes
       (\<lambda>target qs. if target \<ge> 3 then Some \<lparr>label = ''720p'', bandwidth = 3000000\<rparr>
                     else Some \<lparr>label = ''480p'', bandwidth = 1000000\<rparr>)
       defaultABRConfig
       [(20000, DecisionTick [\<lparr>label = ''480p'', bandwidth = 1000000\<rparr>,
          \<lparr>label = ''720p'', bandwidth = 3000000\<rparr>] 10 10 90 10),
        (23000, AdaptationTimerFires),
        (25000, DecisionTick [\<lparr>label = ''480p'', bandwidth = 1000000\<rparr>,
          \<lparr>label = ''720p'', bandwidth = 3000000\<rparr>] 0.5 1 90 0.5),
        (40000, DecisionTick [\<lparr>label = ''480p'', bandwidth = 1000000\<rparr>,
          \<lparr>label = ''720p'', bandwidth = 3000000\<rparr>] 0.5 1 90 0.5),
        (43000, AdaptationTimerFires)]
       initialABRHook = [23000, 43000] \<and>
   spacedBy (minSwitchInterval defaultABRConfig)
     (commitTimes
       (\<lambda>target qs. if target \<ge> 3 then Some \<lparr>label = ''720p'', bandwidth = 3000000\<rparr>
                     else Some \<lparr>label = ''480p'', bandwidth = 1000000\<rparr>)
       defaultABRConfig
       [(20000, DecisionTick [\<lparr>label = ''480p'', bandwidth = 1000000\<rparr>,
          \<lparr>label = ''720p'', bandwidth = 3000000\<rparr>] 10 10 90 10),
        (23000, AdaptationTimerFires),
        (25000, DecisionTick [\<lparr>label = ''480p'', bandwidth = 1000000\<rparr>,
          \<lparr>label = ''720p'', bandwidth = 3000000\<rparr>] 0.5 1 90 0.5),
        (40000, DecisionTick [\<lparr>label = ''480p'', bandwidth = 1000000\<rparr>,
          \<lparr>label = ''720p'', bandwidth = 3000000\<rparr>] 0.5 1 90 0.5),
        (43000, AdaptationTimerFires)]
       initialABRHook) \<and>
   lastSwitchTimeRef
     (abrRun
       (\<lambda>target qs. if target \<ge> 3 then Some \<lparr>label = ''720p'', bandwidth = 3000000\<rparr>
                     else Some \<lparr>label = ''480p'', bandwidth = 1000000\<rparr>)
       defaultABRConfig
       [(20000, DecisionTick [\<lparr>label = ''480p'', bandwidth = 1000000\<rparr>,
          \<lparr>label = ''720p'', bandwidth = 3000000\<rparr>] 10 10 90 10),
        (23000, AdaptationTimerFires),
        (25000, DecisionTick [\<lparr>label = ''480p'', bandwidth = 1000000\<rparr>,
          \<lparr>label = ''720p'', bandwidth = 3000000\<rparr>] 0.5 1 90 0.5),
        (40000, DecisionTick [\<lparr>label = ''480p'', bandwidth = 1000000\<rparr>,
          \<lparr>label = ''720p'', bandwidth = 3000000\<rparr>] 0.5 1 90 0.5),
        (43000, AdaptationTimerFires)]
       initialABRHook) = 43000 \<and>
   \<not> fst (shouldSwitch defaultABRConfig (initialABRHook\<lparr>lastSwitchTimeRef := 23000\<rparr>)
            0.5 1 90 25000 (Some \<lparr>label = ''720p'', bandwidth = 3000000\<rparr>)
            (Some \<lparr>label = ''480p'', bandwidth = 1000000\<rparr>))"
proof -
  let ?evs = "[(20000::real, DecisionTick [\<lparr>label = ''480p'', bandwidth = 1000000\<rparr>,
          \<lparr>label = ''720p'', bandwidth = 3000000\<rparr>] 10 10 90 10),
      (23000, AdaptationTimerFires),
      (25000, DecisionTick [\<lparr>label = ''480p'', bandwidth = 1000000\<rparr>,
          \<lparr>label = ''720p'', bandwidth = 3000000\<rparr>] 0.5 1 90 0.5),
      (40000, DecisionTick [\<lparr>label = ''480p'', bandwidth = 1000000\<rparr>,
          \<lparr>label = ''720p'', bandwidth = 3000000\<rparr>] 0.5 1 90 0.5),
      (43000, AdaptationTimerFires)]"
  let ?rq = "\<lambda>(target::real) (qs::StreamQuality list).
      if target \<ge> 3 then Some \<lparr>label = ''720p'', bandwidth = 3000000\<rparr>
      else Some \<lparr>label = ''480p'', bandwidth = 1000000\<rparr>"
  have srt: "sorted (map fst ?evs)" by simp
  have run: "commitTimes ?rq defaultABRConfig ?evs initialABRHook = [23000, 43000]"
    by (simp add: defaultABRConfig_def initialABRHook_def decisionTick_def
        determineOptimalQuality_def safetyFactor_def shouldSwitch_def adaptationTimerFires_def
        Let_def)
  have early: "(25000::real) - lastSwitchTimeRef (initialABRHook\<lparr>lastSwitchTimeRef := 23000\<rparr>)
      < minSwitchInterval defaultABRConfig"
    by (simp add: defaultABRConfig_def)
  from C6_switches_spaced_by_minSwitchInterval
    [OF srt, where config = defaultABRConfig and recommendQuality = ?rq
      and h = "initialABRHook\<lparr>lastSwitchTimeRef := 23000\<rparr>" and now = 25000
      and bw = "0.5" and buf = 1 and hs = 90
      and cur = "Some \<lparr>label = ''720p'', bandwidth = 3000000\<rparr>"
      and tgt = "Some \<lparr>label = ''480p'', bandwidth = 1000000\<rparr>"]
    early
  have sp: "spacedBy (minSwitchInterval defaultABRConfig)
          (commitTimes ?rq defaultABRConfig ?evs initialABRHook)"
    and lst: "commitTimes ?rq defaultABRConfig ?evs initialABRHook \<noteq> [] \<longrightarrow>
          lastSwitchTimeRef (abrRun ?rq defaultABRConfig ?evs initialABRHook) =
            last (commitTimes ?rq defaultABRConfig ?evs initialABRHook)"
    and rej: "\<not> fst (shouldSwitch defaultABRConfig (initialABRHook\<lparr>lastSwitchTimeRef := 23000\<rparr>)
            0.5 1 90 25000 (Some \<lparr>label = ''720p'', bandwidth = 3000000\<rparr>)
            (Some \<lparr>label = ''480p'', bandwidth = 1000000\<rparr>))"
    by blast+
  from lst have lst': "lastSwitchTimeRef (abrRun ?rq defaultABRConfig ?evs initialABRHook) = 43000"
    unfolding run by simp
  show ?thesis
    apply (intro conjI)
        apply (rule srt)
       apply (rule run)
      apply (rule sp)
     apply (rule lst')
    apply (rule rej)
    done
qed

lemma abrStep_switchCount:
  "switchCount (abrState h) = switchCountRef h \<Longrightarrow>
   switchCount (abrState (abrStep rq config e h)) = switchCountRef (abrStep rq config e h)"
proof (cases e)
  case (Pair t a)
  assume inv: "switchCount (abrState h) = switchCountRef h"
  show ?thesis
  proof (cases a)
    case (DecisionTick qs bw buf hs cb)
    with Pair inv show ?thesis
      by (simp add: decisionTick_def split: option.splits prod.splits)
  next
    case AdaptationTimerFires
    with Pair inv show ?thesis
      by (simp add: adaptationTimerFires_def split: option.splits prod.splits)
  next
    case EffectCleanup
    with Pair inv show ?thesis by (simp add: effectCleanup_def)
  next
    case (SetManualQuality q)
    with Pair show ?thesis by (simp add: setManualQuality_def)
  qed
qed

lemma abrRun_switchCount:
  "switchCount (abrState h) = switchCountRef h \<Longrightarrow>
   switchCount (abrState (abrRun rq config evs h)) = switchCountRef (abrRun rq config evs h)"
  by (induction evs arbitrary: h) (simp_all add: abrStep_switchCount)

lemma commitTimes_append:
  "commitTimes rq config (xs @ ys) h =
     commitTimes rq config xs h @ commitTimes rq config ys (abrRun rq config xs h)"
  by (induction xs arbitrary: h) simp_all

text \<open>
  Claim C10.  After any run of the hook, \<open>setManualQuality q\<close> leaves the state with
  \<open>currentQuality = q\<close>, no target, \<open>isAdapting = false\<close>, the reason 'Manuel' and the
  stable-tick counter at 0; \<open>switchCount\<close>, \<open>switchCountRef\<close> and \<open>lastSwitchTimeRef\<close>
  are what they were, the call is not among the committed switches, and the time the
  switch gate measures from is unchanged.  (The call does not clear a pending settle timer
  either.)
\<close>

theorem C10_setManualQuality_frame:
  "currentQuality (abrState (setManualQuality q (abrRun rq config evs initialABRHook))) = q \<and>
   targetQuality (abrState (setManualQuality q (abrRun rq config evs initialABRHook))) = None \<and>
   isAdapting (abrState (setManualQuality q (abrRun rq config evs initialABRHook))) = False \<and>
   adaptationReason (abrState (setManualQuality q (abrRun rq config evs initialABRHook))) = Manuel \<and>
   stableCountRef (setManualQuality q (abrRun rq config evs initialABRHook)) = 0 \<and>
   switchCount (abrState (setManualQuality q (abrRun rq config evs initialABRHook))) =
     switchCount (abrState (abrRun rq config evs initialABRHook)) \<and>
   switchCountRef (setManualQuality q (abrRun rq config evs initialABRHook)) =
     switchCountRef (abrRun rq config evs initialABRHook) \<and>
   lastSwitchTimeRef (setManualQuality q (abrRun rq config evs initialABRHook)) =
     lastSwitchTimeRef (abrRun rq config evs initialABRHook) \<and>
   adaptationTimerRef (setManualQuality q (abrRun rq config evs initialABRHook)) =
     adaptationTimerRef (abrRun rq config evs initialABRHook) \<and>
   commitTimes rq config (evs @ [(t, SetManualQuality q)]) initialABRHook =
     commitTimes rq config evs initialABRHook"
proof -
  have "switchCount (abrState initialABRHook) = switchCountRef initialABRHook"
    by (simp add: initialABRHook_def)
  from abrRun_switchCount [OF this, of rq config evs] show ?thesis
    by (simp add: setManualQuality_def commitTimes_append)
qed

theorem C10_setManualQuality_frame_witness:
  "switchCount (abrState (setManualQuality (Some \<lparr>label = ''480p'', bandwidth = 1000000\<rparr>)
      (abrRun (\<lambda>target qs. Some \<lparr>label = ''720p'', bandwidth = 3000000\<rparr>) defaultABRConfig
         [(20000, DecisionTick [\<lparr>label = ''720p'', bandwidth = 3000000\<rparr>] 10 10 90 10),
          (23000, AdaptationTimerFires)] initialABRHook))) = 1 \<and>
   lastSwitchTimeRef (setManualQuality (Some \<lparr>label = ''480p'', bandwidth = 1000000\<rparr>)
      (abrRun (\<lambda>target qs. Some \<lparr>label = ''720p'', bandwidth = 3000000\<rparr>) defaultABRConfig
         [(20000, DecisionTick [\<lparr>label = ''720p'', bandwidth = 3000000\<rparr>] 10 10 90 10),
          (23000, AdaptationTimerFires)] initialABRHook)) = 23000 \<and>
   currentQuality (abrState (setManualQuality (Some \<lparr>label = ''480p'', bandwidth = 1000000\<rparr>)
      (abrRun (\<lambda>target qs. Some \<lparr>label = ''720p'', bandwidth = 3000000\<rparr>) defaultABRConfig
         [(20000, DecisionTick [\<lparr>label = ''720p'', bandwidth = 3000000\<rparr>] 10 10 90 10),
          (23000, AdaptationTimerFires)] initialABRHook))) =
     Some \<lparr>label = ''480p'', bandwidth = 1000000\<rparr>"
proof -
  let ?run = "abrRun (\<lambda>(target::real) (qs::StreamQuality list).
         Some \<lparr>label = ''720p'', bandwidth = 3000000\<rparr>) defaultABRConfig
         [(20000, DecisionTick [\<lparr>label = ''720p'', bandwidth = 3000000\<rparr>] 10 10 90 10),
          (23000, AdaptationTimerFires)] initialABRHook"
  have run: "switchCount (abrState ?run) = 1 \<and> lastSwitchTimeRef ?run = 23000"
    by (simp add: defaultABRConfig_def initialABRHook_def decisionTick_def
        determineOptimalQuality_def safetyFactor_def shouldSwitch_def adaptationTimerFires_def
        Let_def)
  from C10_setManualQuality_frame
    [of "Some \<lparr>label = ''480p'', bandwidth = 1000000\<rparr>"
        "\<lambda>(target::real) (qs::StreamQuality list). Some \<lparr>label = ''720p'', bandwidth = 3000000\<rparr>"
        defaultABRConfig
        "[(20000, DecisionTick [\<lparr>label = ''720p'', bandwidth = 3000000\<rparr>] 10 10 90 10),
          (23000, AdaptationTimerFires)]"]
    run
  show ?thesis by simp
qed

section \<open>Properties of the health monitor\<close>

subsection \<open>Score and level\<close>

lemma spec_clamp_max_min: "max 0 (min 100 x) = spec_clamp x"
  by (simp add: spec_clamp_def)

text \<open>Each block of \<open>calculateScore\<close> subtracts one deduction from the running score.\<close>

lemma bufferDeduction_step:
  "(if b < 0.5 then s - 40 else if b < 1 then s - 25 else if b < 3 then s - 15
    else if b < 5 then s - 5 else s) = s - spec_bufferDeduction b"
  by (simp add: spec_bufferDeduction_def)

lemma dropDeduction_step:
  "(if r > 5 then s - 30 else if r > 2 then s - 15 else if r > 0.5 then s - 5 else s) =
     s - spec_dropDeduction r"
  by (simp add: spec_dropDeduction_def)

lemma stallDeduction_step:
  "(if n > 8 then s - 20 else if n > 4 then s - 10 else if n > 1 then s - 5 else s) =
     s - spec_stallDeduction n"
  by (simp add: spec_stallDeduction_def)

lemma ratioDeduction_step:
  "(if js_gt q 0.3 then s - 10 else if js_gt q 0.15 then s - 5 else s) =
     s - spec_ratioDeduction q"
  by (simp add: spec_ratioDeduction_def)

lemma defaultHealthMonitorConfig_levels:
  "criticalBufferLevel defaultHealthMonitorConfig = 1"
  "warningBufferLevel defaultHealthMonitorConfig = 3"
  by (simp_all add: defaultHealthMonitorConfig_def)

lemma calculateScore_default:
  "calculateScore defaultHealthMonitorConfig lastCheck now bufferLevel droppedFrameRate
       stallCnt bufferingTme =
     spec_healthScore bufferLevel droppedFrameRate stallCnt
       (js_div bufferingTme (now - lastCheck))"
  unfolding calculateScore_def Let_def defaultHealthMonitorConfig_levels
    ratioDeduction_step stallDeduction_step dropDeduction_step bufferDeduction_step
    spec_clamp_max_min spec_healthScore_def
  by (simp add: algebra_simps)

lemma calculateScore_range:
  "0 \<le> calculateScore config lastCheck now bufferLevel droppedFrameRate stallCnt bufferingTme \<and>
   calculateScore config lastCheck now bufferLevel droppedFrameRate stallCnt bufferingTme \<le> 100"
  unfolding calculateScore_def Let_def
  by (simp only: max.cobounded1 min.cobounded1 max.bounded_iff simp_thms)

lemma levelOf_iff:
  "(levelOf scr = Critical \<longleftrightarrow> scr < 30) \<and>
   (levelOf scr = Warning \<longleftrightarrow> 30 \<le> scr \<and> scr < 60) \<and>
   (levelOf scr = Good \<longleftrightarrow> 60 \<le> scr \<and> scr < 85) \<and>
   (levelOf scr = Excellent \<longleftrightarrow> 85 \<le> scr)"
  by (simp add: levelOf_def)

text \<open>What a tick leaves in the refs and publishes in \<open>health\<close>.\<close>

lemma monitorTick_refs:
  "stallCountRef (monitorTick config video now clk m) =
     stallCountRef (snd (detectStall config video now m))"
  "totalBufferingTimeRef (monitorTick config video now clk m) =
     totalBufferingTimeRef (snd (detectStall config video now m))"
  "stalledSinceRef (monitorTick config video now clk m) =
     stalledSinceRef (snd (detectStall config video now m))"
  "lastTimeRef (monitorTick config video now clk m) = currentTime video"
  "lastCheckRef (monitorTick config video now clk m) = now"
  by (simp_all add: monitorTick_def Let_def split: prod.splits)

lemma detectStall_lastCheck:
  "lastCheckRef (snd (detectStall config video now m)) = lastCheckRef m"
  by (simp add: detectStall_def Let_def)

lemma monitorTick_published:
  "score (health (monitorTick config video now clk m)) =
     calculateScore config (lastCheckRef m) clk
       (case bufferedEnd video of None \<Rightarrow> 0 | Some e \<Rightarrow> e - currentTime video)
       (case playbackQuality video of
          None \<Rightarrow> 0
        | Some (droppedVideoFrames, totalVideoFrames) \<Rightarrow>
            if totalVideoFrames > 0 then (droppedVideoFrames / totalVideoFrames) * 100 else 0)
       (stallCountRef (monitorTick config video now clk m))
       (totalBufferingTimeRef (monitorTick config video now clk m))"
  "level (health (monitorTick config video now clk m)) =
     levelOf (score (health (monitorTick config video now clk m)))"
  "stallCount (health (monitorTick config video now clk m)) =
     stallCountRef (monitorTick config video now clk m)"
  "bufferingTime (health (monitorTick config video now clk m)) =
     totalBufferingTimeRef (monitorTick config video now clk m)"
  "Lecture_interrompue \<in> set (issues (health (monitorTick config video now clk m))) \<longleftrightarrow>
     fst (detectStall config video now m)"
  using detectStall_lastCheck [of config video now m]
  by (cases "detectStall config video now m"; simp add: monitorTick_def Let_def)+

text \<open>
  Claim C4.  With the default thresholds, the score \<open>calculateScore\<close> returns is 100
  minus the four independent deductions (buffer below 0.5 s: 40, below 1 s: 25, below
  3 s: 15, below 5 s: 5; drop rate above 5%: 30, above 2%: 15, above 0.5%: 5; stall
  count above 8: 20, above 4: 10, above 1: 5; buffering ratio above 0.3: 10, above
  0.15: 5), clamped to the range from 0 to 100, for every input, negative buffers and
  drop rates above 100% included; the score is in that range for every configuration;
  the level is critical iff the score is below 30, warning iff it is at least 30 and
  below 60, good iff it is at least 60 and below 85, excellent otherwise; and a
  monitor tick publishes this score, computed from what it read, with its level.
\<close>

theorem C4_health_score_and_level:
  "calculateScore defaultHealthMonitorConfig lastCheck clock bufferLevel droppedFrameRate
       stallCnt bufferingTme =
     spec_healthScore bufferLevel droppedFrameRate stallCnt
       (js_div bufferingTme (clock - lastCheck)) \<and>
   spec_ratioDeduction (Finite q) = (if q > 0.3 then 10 else if q > 0.15 then 5 else 0) \<and>
   0 \<le> calculateScore config lastCheck clock bufferLevel droppedFrameRate stallCnt bufferingTme \<and>
   calculateScore config lastCheck clock bufferLevel droppedFrameRate stallCnt bufferingTme
     \<le> 100 \<and>
   (levelOf scr = Critical \<longleftrightarrow> scr < 30) \<and>
   (levelOf scr = Warning \<longleftrightarrow> 30 \<le> scr \<and> scr < 60) \<and>
   (levelOf scr = Good \<longleftrightarrow> 60 \<le> scr \<and> scr < 85) \<and>
   (levelOf scr = Excellent \<longleftrightarrow> 85 \<le> scr) \<and>
   level (health (monitorTick config video now clk m)) =
     levelOf (score (health (monitorTick config video now clk m))) \<and>
   score (health (monitorTick defaultHealthMonitorConfig video now clk m)) =
     spec_healthScore
       (case bufferedEnd video of None \<Rightarrow> 0 | Some e \<Rightarrow> e - currentTime video)
       (case playbackQuality video of
          None \<Rightarrow> 0
        | Some (droppedVideoFrames, totalVideoFrames) \<Rightarrow>
            if totalVideoFrames > 0 then (droppedVideoFrames / totalVideoFrames) * 100 else 0)
       (stallCountRef (monitorTick defaultHealthMonitorConfig video now clk m))
       (js_div (totalBufferingTimeRef (monitorTick defaultHealthMonitorConfig video now clk m))
          (clk - lastCheckRef m))"
  using calculateScore_range [of config lastCheck clock bufferLevel droppedFrameRate stallCnt
      bufferingTme] levelOf_iff [of scr]
  by (simp add: calculateScore_default monitorTick_published spec_ratioDeduction_def)

theorem C4_health_score_and_level_witness:
  "calculateScore defaultHealthMonitorConfig 0 1000 0.3 0 0 0 = 60 \<and> levelOf 60 = Good \<and>
   calculateScore defaultHealthMonitorConfig 0 1000 6 6 9 400 = 40 \<and> levelOf 40 = Warning \<and>
   calculateScore defaultHealthMonitorConfig 0 1000 (- 5) 150 0 0 = 30 \<and>
   calculateScore defaultHealthMonitorConfig 0 1000 0.1 10 9 400 = 0 \<and> levelOf 0 = Critical \<and>
   calculateScore defaultHealthMonitorConfig 0 1000 6 0 0 0 = 100 \<and> levelOf 100 = Excellent"
proof -
  have a: "calculateScore defaultHealthMonitorConfig 0 1000 0.3 0 0 0 = 60"
    using C4_health_score_and_level
      [where lastCheck = 0 and clock = 1000 and bufferLevel = "0.3" and droppedFrameRate = 0
         and stallCnt = 0 and bufferingTme = 0]
    by (simp add: spec_healthScore_def spec_bufferDeduction_def spec_dropDeduction_def
        spec_stallDeduction_def spec_ratioDeduction_def spec_clamp_def js_div_def)
  have b: "calculateScore defaultHealthMonitorConfig 0 1000 6 6 9 400 = 40"
    using C4_health_score_and_level
      [where lastCheck = 0 and clock = 1000 and bufferLevel = 6 and droppedFrameRate = 6
         and stallCnt = 9 and bufferingTme = 400]
    by (simp add: spec_healthScore_def spec_bufferDeduction_def spec_dropDeduction_def
        spec_stallDeduction_def spec_ratioDeduction_def spec_clamp_def js_div_def)
  have c: "calculateScore defaultHealthMonitorConfig 0 1000 (- 5) 150 0 0 = 30"
    using C4_health_score_and_level
      [where lastCheck = 0 and clock = 1000 and bufferLevel = "- 5" and droppedFrameRate = 150
         and stallCnt = 0 and bufferingTme = 0]
    by (simp add: spec_healthScore_def spec_bufferDeduction_def spec_dropDeduction_def
        spec_stallDeduction_def spec_ratioDeduction_def spec_clamp_def js_div_def)
  have d: "calculateScore defaultHealthMonitorConfig 0 1000 0.1 10 9 400 = 0"
    using C4_health_score_and_level
      [where lastCheck = 0 and clock = 1000 and bufferLevel = "0.1" and droppedFrameRate = 10
         and stallCnt = 9 and bufferingTme = 400]
    by (simp add: spec_healthScore_def spec_bufferDeduction_def spec_dropDeduction_def
        spec_stallDeduction_def spec_ratioDeduction_def spec_clamp_def js_div_def)
  have e: "calculateScore defaultHealthMonitorConfig 0 1000 6 0 0 0 = 100"
    using C4_health_score_and_level
      [where lastCheck = 0 and clock = 1000 and bufferLevel = 6 and droppedFrameRate = 0
         and stallCnt = 0 and bufferingTme = 0]
    by (simp add: spec_healthScore_def spec_bufferDeduction_def spec_dropDeduction_def
        spec_stallDeduction_def spec_ratioDeduction_def spec_clamp_def js_div_def)
  have l: "levelOf 60 = Good" "levelOf 40 = Warning" "levelOf 0 = Critical"
    "levelOf 100 = Excellent"
    using C4_health_score_and_level [where scr = 60] C4_health_score_and_level [where scr = 40]
      C4_health_score_and_level [where scr = 0] C4_health_score_and_level [where scr = 100]
    by simp_all
  from a b c d e l show ?thesis by simp
qed

subsection \<open>Stall detection\<close>

text \<open>
  Claim C9, as the code has it.  A monitor tick is stalled when the video is not
  paused, \<open>currentTime\<close> is exactly what it was at the last tick, and more than
  \<open>stallThreshold\<close> has elapsed since the last tick.  A stalled tick adds the elapsed
  time to the buffering time and reports 'Lecture interrompue'; it increments the stall
  count and records \<open>now\<close> in \<open>stalledSinceRef\<close> only when no episode is open
  (\<open>stalledSinceRef\<close> is null, or 0), and leaves both alone otherwise.  A tick that is
  not stalled changes neither counter; it closes the episode when \<open>currentTime\<close> has
  advanced and keeps it when it has not.  Hence of two consecutive stalled ticks the
  second does not increment the count (the clock is never 0).
\<close>

theorem C9_stall_detection:
  "(\<not> paused video \<and> currentTime video = lastTimeRef m \<and>
    stallThreshold config < now - lastCheckRef m \<longrightarrow>
      Lecture_interrompue \<in> set (issues (health (monitorTick config video now clk m))) \<and>
      totalBufferingTimeRef (monitorTick config video now clk m) =
        totalBufferingTimeRef m + (now - lastCheckRef m) \<and>
      bufferingTime (health (monitorTick config video now clk m)) =
        totalBufferingTimeRef m + (now - lastCheckRef m) \<and>
      (falsy (stalledSinceRef m) \<longrightarrow>
         stallCountRef (monitorTick config video now clk m) = stallCountRef m + 1 \<and>
         stalledSinceRef (monitorTick config video now clk m) = Some now) \<and>
      (\<not> falsy (stalledSinceRef m) \<longrightarrow>
         stallCountRef (monitorTick config video now clk m) = stallCountRef m \<and>
         stalledSinceRef (monitorTick config video now clk m) = stalledSinceRef m)) \<and>
   (\<not> (\<not> paused video \<and> currentTime video = lastTimeRef m \<and>
        stallThreshold config < now - lastCheckRef m) \<longrightarrow>
      Lecture_interrompue \<notin> set (issues (health (monitorTick config video now clk m))) \<and>
      stallCountRef (monitorTick config video now clk m) = stallCountRef m \<and>
      totalBufferingTimeRef (monitorTick config video now clk m) = totalBufferingTimeRef m \<and>
      (lastTimeRef m < currentTime video \<longrightarrow>
         falsy (stalledSinceRef (monitorTick config video now clk m))) \<and>
      (currentTime video \<le> lastTimeRef m \<longrightarrow>
         stalledSinceRef (monitorTick config video now clk m) = stalledSinceRef m)) \<and>
   stallCount (health (monitorTick config video now clk m)) =
     stallCountRef (monitorTick config video now clk m) \<and>
   (\<not> paused video \<and> currentTime video = lastTimeRef m \<and>
    stallThreshold config < now - lastCheckRef m \<and> now \<noteq> 0 \<and>
    \<not> paused video' \<and> currentTime video' = currentTime video \<and>
    stallThreshold config < now' - now \<longrightarrow>
      stallCountRef (monitorTick config video' now' clk'
                       (monitorTick config video now clk m)) =
        stallCountRef (monitorTick config video now clk m) \<and>
      totalBufferingTimeRef (monitorTick config video' now' clk'
                               (monitorTick config video now clk m)) =
        totalBufferingTimeRef (monitorTick config video now clk m) + (now' - now))"
proof -
  have one: "(\<not> paused v \<and> currentTime v = lastTimeRef k \<and>
      stallThreshold config < t - lastCheckRef k \<longrightarrow>
        fst (detectStall config v t k) \<and>
        totalBufferingTimeRef (snd (detectStall config v t k)) =
          totalBufferingTimeRef k + (t - lastCheckRef k) \<and>
        (falsy (stalledSinceRef k) \<longrightarrow>
           stallCountRef (snd (detectStall config v t k)) = stallCountRef k + 1 \<and>
           stalledSinceRef (snd (detectStall config v t k)) = Some t) \<and>
        (\<not> falsy (stalledSinceRef k) \<longrightarrow>
           stallCountRef (snd (detectStall config v t k)) = stallCountRef k \<and>
           stalledSinceRef (snd (detectStall config v t k)) = stalledSinceRef k)) \<and>
     (\<not> (\<not> paused v \<and> currentTime v = lastTimeRef k \<and>
          stallThreshold config < t - lastCheckRef k) \<longrightarrow>
        \<not> fst (detectStall config v t k) \<and>
        stallCountRef (snd (detectStall config v t k)) = stallCountRef k \<and>
        totalBufferingTimeRef (snd (detectStall config v t k)) = totalBufferingTimeRef k \<and>
        (lastTimeRef k < currentTime v \<longrightarrow> falsy (stalledSinceRef (snd (detectStall config v t k)))) \<and>
        (currentTime v \<le> lastTimeRef k \<longrightarrow>
           stalledSinceRef (snd (detectStall config v t k)) = stalledSinceRef k))"
    for v t k
    by (auto simp: detectStall_def Let_def)
  have first: "\<not> paused video \<and> currentTime video = lastTimeRef m \<and>
      stallThreshold config < now - lastCheckRef m \<and> now \<noteq> 0 \<Longrightarrow>
      \<not> falsy (stalledSinceRef (monitorTick config video now clk m))"
    using one [of video m now] by (cases "stalledSinceRef m") (auto simp: monitorTick_refs)
  show ?thesis
    using one [of video m now]
      one [of video' "monitorTick config video now clk m" now'] first
    by (simp add: monitorTick_refs monitorTick_published)
qed

theorem C9_stall_detection_witness:
  "stallCountRef (monitorTick defaultHealthMonitorConfig
      \<lparr>currentTime = 0, paused = False, bufferedEnd = None, playbackQuality = None\<rparr>
      4000 4000 (initialHealthMonitor 1000)) = 1 \<and>
   totalBufferingTimeRef (monitorTick defaultHealthMonitorConfig
      \<lparr>currentTime = 0, paused = False, bufferedEnd = None, playbackQuality = None\<rparr>
      4000 4000 (initialHealthMonitor 1000)) = 3000 \<and>
   stallCountRef (monitorTick defaultHealthMonitorConfig
      \<lparr>currentTime = 0, paused = False, bufferedEnd = None, playbackQuality = None\<rparr>
      7000 7000
      (monitorTick defaultHealthMonitorConfig
        \<lparr>currentTime = 0, paused = False, bufferedEnd = None, playbackQuality = None\<rparr>
        4000 4000 (initialHealthMonitor 1000))) = 1 \<and>
   totalBufferingTimeRef (monitorTick defaultHealthMonitorConfig
      \<lparr>currentTime = 0, paused = False, bufferedEnd = None, playbackQuality = None\<rparr>
      7000 7000
      (monitorTick defaultHealthMonitorConfig
        \<lparr>currentTime = 0, paused = False, bufferedEnd = None, playbackQuality = None\<rparr>
        4000 4000 (initialHealthMonitor 1000))) = 6000 \<and>
   stallCountRef (monitorTick defaultHealthMonitorConfig
      \<lparr>currentTime = 1, paused = False, bufferedEnd = None, playbackQuality = None\<rparr>
      5000 5000 (initialHealthMonitor 1000)) = 0"
proof -
  let ?v = "\<lparr>currentTime = 0, paused = False, bufferedEnd = None, playbackQuality = None\<rparr>"
  let ?w = "\<lparr>currentTime = 1, paused = False, bufferedEnd = None, playbackQuality = None\<rparr>"
  have m0: "lastTimeRef (initialHealthMonitor 1000) = 0"
    "lastCheckRef (initialHealthMonitor 1000) = 1000"
    "stalledSinceRef (initialHealthMonitor 1000) = None"
    "stallCountRef (initialHealthMonitor 1000) = 0"
    "totalBufferingTimeRef (initialHealthMonitor 1000) = 0"
    by (simp_all add: initialHealthMonitor_def)
  have cfg: "stallThreshold defaultHealthMonitorConfig = 2000"
    by (simp add: defaultHealthMonitorConfig_def)
  from C9_stall_detection
    [where config = defaultHealthMonitorConfig and video = ?v and m = "initialHealthMonitor 1000"
       and now = 4000 and clk = 4000 and video' = ?v and now' = 7000 and clk' = 7000]
    C9_stall_detection
    [where config = defaultHealthMonitorConfig and video = ?w and m = "initialHealthMonitor 1000"
       and now = 5000 and clk = 5000]
  show ?thesis by (simp add: m0 cfg)
qed

text \<open>
  Claim C9 as the specification words it counts a tick as stalled when the position
  made no forward progress.  When the position has moved back (10 s at the first tick,
  5 s at the next, 3000 ms later, not paused), there is no forward progress, and the
  tick is not stalled: the count stays 0 and no buffering time is added.
\<close>

theorem C9_backward_move_is_not_a_stall_counterexample:
  "\<not> paused \<lparr>currentTime = 5, paused = False, bufferedEnd = None, playbackQuality = None\<rparr> \<and>
   currentTime \<lparr>currentTime = 5, paused = False, bufferedEnd = None, playbackQuality = None\<rparr>
     \<le> lastTimeRef (monitorTick defaultHealthMonitorConfig
          \<lparr>currentTime = 10, paused = False, bufferedEnd = None, playbackQuality = None\<rparr>
          1000 1000 (initialHealthMonitor 0)) \<and>
   stallThreshold defaultHealthMonitorConfig
     < 4000 - lastCheckRef (monitorTick defaultHealthMonitorConfig
          \<lparr>currentTime = 10, paused = False, bufferedEnd = None, playbackQuality = None\<rparr>
          1000 1000 (initialHealthMonitor 0)) \<and>
   stallCountRef (monitorTick defaultHealthMonitorConfig
      \<lparr>currentTime = 5, paused = False, bufferedEnd = None, playbackQuality = None\<rparr> 4000 4000
      (monitorTick defaultHealthMonitorConfig
         \<lparr>currentTime = 10, paused = False, bufferedEnd = None, playbackQuality = None\<rparr>
         1000 1000 (initialHealthMonitor 0))) = 0 \<and>
   totalBufferingTimeRef (monitorTick defaultHealthMonitorConfig
      \<lparr>currentTime = 5, paused = False, bufferedEnd = None, playbackQuality = None\<rparr> 4000 4000
      (monitorTick defaultHealthMonitorConfig
         \<lparr>currentTime = 10, paused = False, bufferedEnd = None, playbackQuality = None\<rparr>
         1000 1000 (initialHealthMonitor 0))) = 0 \<and>
   Lecture_interrompue \<notin> set (issues (health (monitorTick defaultHealthMonitorConfig
      \<lparr>currentTime = 5, paused = False, bufferedEnd = None, playbackQuality = None\<rparr> 4000 4000
      (monitorTick defaultHealthMonitorConfig
         \<lparr>currentTime = 10, paused = False, bufferedEnd = None, playbackQuality = None\<rparr>
         1000 1000 (initialHealthMonitor 0)))))"
  by (simp add: monitorTick_refs monitorTick_published detectStall_def Let_def
      initialHealthMonitor_def defaultHealthMonitorConfig_def)

section \<open>Properties of the error-recovery controller\<close>

subsection \<open>Backoff\<close>

lemma js_round_between:
  "of_int a \<le> x + 1 / 2 \<Longrightarrow> x + 1 / 2 < of_int b + 1 \<Longrightarrow>
   of_int a \<le> js_round x \<and> js_round x \<le> of_int b"
  by (simp add: js_round_def le_floor_iff floor_le_iff)

lemma jitter_within_an_eighth:
  fixes d random :: real
  assumes "0 \<le> random" "random < 1"
  shows "\<bar>d * 0.25 * (random - 0.5)\<bar> \<le> 0.125 * \<bar>d\<bar>"
proof -
  have "\<bar>random - 0.5\<bar> \<le> 0.5" using assms by linarith
  then have "\<bar>d\<bar> * 0.25 * \<bar>random - 0.5\<bar> \<le> \<bar>d\<bar> * 0.25 * 0.5"
    by (intro mult_left_mono) simp_all
  then show ?thesis by (simp add: abs_mult)
qed

lemma recordErrors_count:
  "errorCount (errorState (recordErrors config es s)) = errorCount (errorState s) + length es"
  by (induction es arbitrary: s) (auto simp: recordError_def Let_def)

lemma backoff_fifth_error:
  assumes "baseDelay config = 100" "maxDelay config = 10000" "0 \<le> random" "random < 1"
  shows "exponentialDelay config 5 = 3200"
    and "2800 \<le> calculateBackoff config 5 random"
    and "calculateBackoff config 5 random \<le> 3600"
proof -
  show d: "exponentialDelay config 5 = 3200"
    using assms by (simp add: exponentialDelay_def)
  have "of_int 2800 \<le> calculateBackoff config 5 random \<and>
        calculateBackoff config 5 random \<le> of_int 3600"
    unfolding calculateBackoff_def Let_def d
    using assms by (intro js_round_between) simp_all
  then show "2800 \<le> calculateBackoff config 5 random"
    and "calculateBackoff config 5 random \<le> 3600" by simp_all
qed

text \<open>
  What \<open>recordError\<close> stores: the incremented count, and the delay of the incremented
  count with its jitter, rounded.
\<close>

lemma recordError_count_and_delay:
  "errorCount (errorState (recordError config error random now s)) =
     errorCount (errorState s) + 1 \<and>
   nextRetryDelay (errorState (recordError config error random now s)) =
     js_round (exponentialDelay config (errorCount (errorState s) + 1) +
               exponentialDelay config (errorCount (errorState s) + 1) * 0.25 * (random - 0.5)) \<and>
   exponentialDelay config n = min (baseDelay config * 2 ^ n) (maxDelay config)"
  by (simp add: recordError_def calculateBackoff_def exponentialDelay_def Let_def)

text \<open>
  Claim C2.  \<open>recordError\<close> increments \<open>errorCount\<close> and the delay before jitter is
  \<open>min (baseDelay * 2 ^ errorCount) maxDelay\<close>, as claimed: 3200 for the fifth error with
  \<open>baseDelay = 100\<close> and \<open>maxDelay = 10000\<close>.  The jitter is announced as plus or minus
  25% by the claim and by the comment of line 54, which puts the lowest delay at 2400
  and the highest at 4000; line 55 computes
  \<open>exponentialDelay * 0.25 * (Math.random() - 0.5)\<close>, half of that.  At the lowest draw,
  0, the fifth error stores 2800, and at the draw 0.999 it stores 3599.
\<close>

theorem C2_fifth_error_jitter_is_half_the_announced:
  "errorCount (errorState (recordErrors defaultRetryConfig
      [(''e1'', 0.5, 1000), (''e2'', 0.5, 2000), (''e3'', 0.5, 3000), (''e4'', 0.5, 4000),
       (''e5'', 0, 5000)] (initialErrorRecovery defaultRetryConfig))) = 5 \<and>
   exponentialDelay defaultRetryConfig 5 = 3200 \<and>
   exponentialDelay defaultRetryConfig 5 * (1 - 0.25) = 2400 \<and>
   exponentialDelay defaultRetryConfig 5 * (1 + 0.25) = 4000 \<and>
   nextRetryDelay (errorState (recordErrors defaultRetryConfig
      [(''e1'', 0.5, 1000), (''e2'', 0.5, 2000), (''e3'', 0.5, 3000), (''e4'', 0.5, 4000),
       (''e5'', 0, 5000)] (initialErrorRecovery defaultRetryConfig))) = 2800 \<and>
   nextRetryDelay (errorState (recordErrors defaultRetryConfig
      [(''e1'', 0.5, 1000), (''e2'', 0.5, 2000), (''e3'', 0.5, 3000), (''e4'', 0.5, 4000),
       (''e5'', 0.999, 5000)] (initialErrorRecovery defaultRetryConfig))) = 3599"
  by (simp add: recordError_def calculateBackoff_def exponentialDelay_def js_round_def
      defaultRetryConfig_def initialErrorRecovery_def resetErrorState_def Let_def)

text \<open>
  The jitter of \<open>calculateBackoff\<close> is \<open>exponentialDelay * 0.25 * (Math.random() - 0.5)\<close>,
  so it stays within an eighth of the delay: with \<open>baseDelay = 100\<close> and
  \<open>maxDelay = 10000\<close> the delay stored by the fifth error lies between 2800 and 3600.
\<close>

theorem jitter_is_an_eighth_of_the_delay:
  "(0 \<le> random \<and> random < 1 \<longrightarrow>
      \<bar>exponentialDelay config n * 0.25 * (random - 0.5)\<bar>
        \<le> 0.125 * \<bar>exponentialDelay config n\<bar>) \<and>
   (baseDelay config = 100 \<and> maxDelay config = 10000 \<and> 0 \<le> random \<and> random < 1 \<longrightarrow>
      2800 \<le> calculateBackoff config 5 random \<and> calculateBackoff config 5 random \<le> 3600) \<and>
   calculateBackoff defaultRetryConfig 5 0 = 2800"
proof -
  have "calculateBackoff defaultRetryConfig 5 0 = 2800"
    by (simp add: calculateBackoff_def exponentialDelay_def defaultRetryConfig_def js_round_def)
  then show ?thesis
    using jitter_within_an_eighth [of random "exponentialDelay config n"]
      backoff_fifth_error [of config random]
    by simp
qed

theorem jitter_is_an_eighth_of_the_delay_witness:
  "2800 \<le> calculateBackoff defaultRetryConfig 5 0.25 \<and>
   calculateBackoff defaultRetryConfig 5 0.25 \<le> 3600 \<and>
   \<bar>exponentialDelay defaultRetryConfig 5 * 0.25 * (0.25 - 0.5)\<bar>
     \<le> 0.125 * \<bar>exponentialDelay defaultRetryConfig 5\<bar>"
  using jitter_is_an_eighth_of_the_delay
    [where config = defaultRetryConfig and random = "0.25" and n = 5]
  by (simp add: defaultRetryConfig_def)

subsection \<open>The two ceilings of a recovery attempt\<close>

text \<open>
  Claim C5.  \<open>attemptRecovery\<close> rejects at once, leaving both timer refs as they were
  (nothing is scheduled), whenever \<open>errorCount >= maxRetries\<close>, and also whenever the
  time elapsed since \<open>recoveryStartTime\<close> exceeds \<open>globalTimeout\<close>, whatever the
  other ceiling says; it schedules exactly when neither ceiling is reached.  \<open>canRetry\<close>
  is \<open>errorCount < maxRetries\<close>; at \<open>errorCount = maxRetries\<close> it is false and the
  attempt is rejected.
\<close>

theorem C5_attemptRecovery_ceilings:
  "(maxRetries config \<le> real (errorCount (errorState s)) \<longrightarrow>
      attemptRecovery config nowA nowB nowC s =
        (Rejected ''Max retries exceeded'',
         s\<lparr>errorState := (errorState s)\<lparr>isRecovering := False\<rparr>\<rparr>)) \<and>
   (globalTimeout config <
      nowB - (if recoveryStartTime (errorState s) \<noteq> 0
              then recoveryStartTime (errorState s) else nowA) \<longrightarrow>
      fst (attemptRecovery config nowA nowB nowC s) \<noteq> Scheduled \<and>
      snd (attemptRecovery config nowA nowB nowC s) =
        s\<lparr>errorState := (errorState s)\<lparr>isRecovering := False\<rparr>\<rparr>) \<and>
   (real (errorCount (errorState s)) < maxRetries config \<and>
    recoveryStartTime (errorState s) \<noteq> 0 \<and>
    globalTimeout config < nowB - recoveryStartTime (errorState s) \<longrightarrow>
      attemptRecovery config nowA nowB nowC s =
        (Rejected ''Recovery timeout'',
         s\<lparr>errorState := (errorState s)\<lparr>isRecovering := False\<rparr>\<rparr>)) \<and>
   (fst (attemptRecovery config nowA nowB nowC s) \<noteq> Scheduled \<longrightarrow>
      retryTimeoutRef (snd (attemptRecovery config nowA nowB nowC s)) = retryTimeoutRef s \<and>
      globalTimeoutRef (snd (attemptRecovery config nowA nowB nowC s)) = globalTimeoutRef s) \<and>
   (fst (attemptRecovery config nowA nowB nowC s) = Scheduled \<longleftrightarrow>
      real (errorCount (errorState s)) < maxRetries config \<and>
      \<not> globalTimeout config <
          nowB - (if recoveryStartTime (errorState s) \<noteq> 0
                  then recoveryStartTime (errorState s) else nowA)) \<and>
   (fst (attemptRecovery config nowA nowB nowC s) = Scheduled \<longrightarrow>
      retryTimeoutRef (snd (attemptRecovery config nowA nowB nowC s)) =
        Some (nextRetryDelay (errorState s)) \<and>
      globalTimeoutRef (snd (attemptRecovery config nowA nowB nowC s)) =
        Some (globalTimeout config) \<and>
      isRecovering (errorState (snd (attemptRecovery config nowA nowB nowC s)))) \<and>
   canRetry config s = (real (errorCount (errorState s)) < maxRetries config) \<and>
   (real (errorCount (errorState s)) = maxRetries config \<longrightarrow>
      \<not> canRetry config s \<and>
      fst (attemptRecovery config nowA nowB nowC s) = Rejected ''Max retries exceeded'')"
  by (simp add: attemptRecovery_def canRetry_def Let_def)

theorem C5_attemptRecovery_ceilings_witness:
  "\<not> canRetry defaultRetryConfig
      (recordErrors defaultRetryConfig
        [(''e1'', 0.5, 1000), (''e2'', 0.5, 2000), (''e3'', 0.5, 3000), (''e4'', 0.5, 4000),
         (''e5'', 0.5, 5000)] (initialErrorRecovery defaultRetryConfig)) \<and>
   fst (attemptRecovery defaultRetryConfig 6000 6000 6000
      (recordErrors defaultRetryConfig
        [(''e1'', 0.5, 1000), (''e2'', 0.5, 2000), (''e3'', 0.5, 3000), (''e4'', 0.5, 4000),
         (''e5'', 0.5, 5000)] (initialErrorRecovery defaultRetryConfig))) =
     Rejected ''Max retries exceeded'' \<and>
   attemptRecovery defaultRetryConfig 40000 40000 40000
      (recordError defaultRetryConfig ''e1'' 0.5 1000 (initialErrorRecovery defaultRetryConfig)) =
     (Rejected ''Recovery timeout'',
      recordError defaultRetryConfig ''e1'' 0.5 1000 (initialErrorRecovery defaultRetryConfig)) \<and>
   fst (attemptRecovery defaultRetryConfig 2000 2000 2000
      (recordError defaultRetryConfig ''e1'' 0.5 1000 (initialErrorRecovery defaultRetryConfig))) =
     Scheduled \<and>
   retryTimeoutRef (snd (attemptRecovery defaultRetryConfig 2000 2000 2000
      (recordError defaultRetryConfig ''e1'' 0.5 1000 (initialErrorRecovery defaultRetryConfig)))) =
     Some 200 \<and>
   retryTimeoutRef (snd (attemptRecovery defaultRetryConfig 40000 40000 40000
      (recordError defaultRetryConfig ''e1'' 0.5 1000 (initialErrorRecovery defaultRetryConfig)))) =
     None"
proof -
  let ?s5 = "recordErrors defaultRetryConfig
        [(''e1'', 0.5, 1000), (''e2'', 0.5, 2000), (''e3'', 0.5, 3000), (''e4'', 0.5, 4000),
         (''e5'', 0.5, 5000)] (initialErrorRecovery defaultRetryConfig)"
  let ?s1 = "recordError defaultRetryConfig ''e1'' 0.5 1000
        (initialErrorRecovery defaultRetryConfig)"
  have s5: "errorCount (errorState ?s5) = 5"
    unfolding recordErrors_count
    by (simp add: initialErrorRecovery_def resetErrorState_def)
  have s1: "errorState ?s1 =
      \<lparr>errorCount = 1, lastError = Some ''e1'', isRecovering = False, nextRetryDelay = 200,
       recoveryStartTime = 1000\<rparr>"
    by (simp add: recordError_def initialErrorRecovery_def resetErrorState_def
        calculateBackoff_def exponentialDelay_def defaultRetryConfig_def js_round_def Let_def)
  have same: "?s1\<lparr>errorState := (errorState ?s1)\<lparr>isRecovering := False\<rparr>\<rparr> = ?s1"
    by (simp add: recordError_def Let_def)
  have cfg: "maxRetries defaultRetryConfig = 5" "globalTimeout defaultRetryConfig = 30000"
    by (simp_all add: defaultRetryConfig_def)
  from C5_attemptRecovery_ceilings
      [where config = defaultRetryConfig and s = ?s5 and nowA = 6000 and nowB = 6000
         and nowC = 6000] s5 cfg
  have a: "\<not> canRetry defaultRetryConfig ?s5"
    and b: "fst (attemptRecovery defaultRetryConfig 6000 6000 6000 ?s5) =
      Rejected ''Max retries exceeded''"
    by simp_all
  from C5_attemptRecovery_ceilings
      [where config = defaultRetryConfig and s = ?s1 and nowA = 40000 and nowB = 40000
         and nowC = 40000] s1 cfg same
  have c: "attemptRecovery defaultRetryConfig 40000 40000 40000 ?s1 =
      (Rejected ''Recovery timeout'', ?s1)"
    by simp
  have f: "retryTimeoutRef (snd (attemptRecovery defaultRetryConfig 40000 40000 40000 ?s1)) =
      None"
    unfolding c by (simp add: recordError_def initialErrorRecovery_def Let_def)
  from C5_attemptRecovery_ceilings
      [where config = defaultRetryConfig and s = ?s1 and nowA = 2000 and nowB = 2000
         and nowC = 2000] s1 cfg
  have d: "fst (attemptRecovery defaultRetryConfig 2000 2000 2000 ?s1) = Scheduled"
    and e: "retryTimeoutRef (snd (attemptRecovery defaultRetryConfig 2000 2000 2000 ?s1)) =
      Some 200"
    by simp_all
  from a b c d e f show ?thesis by (intro conjI)
qed

subsection \<open>Settling of the recovery action\<close>

text \<open>
  Claim C7.  When the recovery action resolves, the error state is reset in full
  (\<open>errorCount = 0\<close>, no \<open>lastError\<close>, \<open>nextRetryDelay = baseDelay\<close>,
  \<open>recoveryStartTime = 0\<close>, \<open>isRecovering = false\<close>).  When it fails, the message of the
  error (or 'Unknown error') becomes \<open>lastError\<close> and \<open>isRecovering\<close> is cleared, while
  \<open>errorCount\<close>, \<open>nextRetryDelay\<close> and \<open>recoveryStartTime\<close> stay as they were.  In both
  cases the global timer is cleared and no timer is armed: after the retry timer has
  fired and its action has settled, nothing is pending.
\<close>

theorem C7_recovery_settles:
  "errorState (recoveryFnSettles config Resolved s) =
     \<lparr>errorCount = 0, lastError = None, isRecovering = False,
      nextRetryDelay = baseDelay config, recoveryStartTime = 0\<rparr> \<and>
   errorState (recoveryFnSettles config (Threw_Error msg) s) =
     (errorState s)\<lparr>isRecovering := False, lastError := Some msg\<rparr> \<and>
   errorState (recoveryFnSettles config Threw_other s) =
     (errorState s)\<lparr>isRecovering := False, lastError := Some ''Unknown error''\<rparr> \<and>
   errorCount (errorState (recoveryFnSettles config (Threw_Error msg) s)) =
     errorCount (errorState s) \<and>
   nextRetryDelay (errorState (recoveryFnSettles config (Threw_Error msg) s)) =
     nextRetryDelay (errorState s) \<and>
   recoveryStartTime (errorState (recoveryFnSettles config (Threw_Error msg) s)) =
     recoveryStartTime (errorState s) \<and>
   errorCount (errorState (recoveryFnSettles config Threw_other s)) =
     errorCount (errorState s) \<and>
   nextRetryDelay (errorState (recoveryFnSettles config Threw_other s)) =
     nextRetryDelay (errorState s) \<and>
   globalTimeoutRef (recoveryFnSettles config result s) = None \<and>
   retryTimeoutRef (recoveryFnSettles config result s) = retryTimeoutRef s \<and>
   retryTimeoutRef (recoveryFnSettles config result (retryTimeoutFires s)) = None \<and>
   globalTimeoutRef (recoveryFnSettles config result (retryTimeoutFires s)) = None"
  by (cases result) (simp_all add: retryTimeoutFires_def)

theorem C7_recovery_settles_witness:
  "errorState (recoveryFnSettles defaultRetryConfig (Threw_Error ''boom'')
      (retryTimeoutFires (snd (attemptRecovery defaultRetryConfig 2000 2000 2000
         (recordError defaultRetryConfig ''e1'' 0.5 1000
            (initialErrorRecovery defaultRetryConfig)))))) =
     \<lparr>errorCount = 1, lastError = Some ''boom'', isRecovering = False, nextRetryDelay = 200,
      recoveryStartTime = 1000\<rparr> \<and>
   retryTimeoutRef (recoveryFnSettles defaultRetryConfig (Threw_Error ''boom'')
      (retryTimeoutFires (snd (attemptRecovery defaultRetryConfig 2000 2000 2000
         (recordError defaultRetryConfig ''e1'' 0.5 1000
            (initialErrorRecovery defaultRetryConfig)))))) = None \<and>
   errorState (recoveryFnSettles defaultRetryConfig Resolved
      (retryTimeoutFires (snd (attemptRecovery defaultRetryConfig 2000 2000 2000
         (recordError defaultRetryConfig ''e1'' 0.5 1000
            (initialErrorRecovery defaultRetryConfig)))))) =
     \<lparr>errorCount = 0, lastError = None, isRecovering = False, nextRetryDelay = 100,
      recoveryStartTime = 0\<rparr>"
proof -
  let ?s = "retryTimeoutFires (snd (attemptRecovery defaultRetryConfig 2000 2000 2000
         (recordError defaultRetryConfig ''e1'' 0.5 1000
            (initialErrorRecovery defaultRetryConfig))))"
  have s: "errorState ?s =
      \<lparr>errorCount = 1, lastError = Some ''e1'', isRecovering = True, nextRetryDelay = 200,
       recoveryStartTime = 1000\<rparr>"
    by (simp add: retryTimeoutFires_def attemptRecovery_def recordError_def
        initialErrorRecovery_def resetErrorState_def calculateBackoff_def exponentialDelay_def
        defaultRetryConfig_def js_round_def Let_def)
  have r: "retryTimeoutFires ?s = ?s" by (simp add: retryTimeoutFires_def)
  from C7_recovery_settles [where config = defaultRetryConfig and s = ?s and msg = "''boom''"
      and result = "Threw_Error ''boom''"] s r
  show ?thesis by (simp add: defaultRetryConfig_def)
qed

section \<open>Properties of the bandwidth estimator\<close>

lemma foldl_bytes:
  "foldl (\<lambda>sum s. sum + real (bytes s)) a samples = a + (\<Sum>s\<leftarrow>samples. real (bytes s))"
  by (induction samples arbitrary: a) simp_all

lemma totalBytes_nonneg: "0 \<le> totalBytes samples"
  by (auto simp: totalBytes_def foldl_bytes intro!: sum_list_nonneg)

lemma halfRate_nonneg: "0 \<le> halfRate half"
  using totalBytes_nonneg [of half] by (simp add: halfRate_def Let_def)

lemma bandwidthTick_trend:
  assumes "2 \<le> length samples"
  shows "trend (bandwidthTick now samples prev) =
           (if 10 \<le> length samples then
              (if halfRate (drop (length samples div 2) samples) >
                    halfRate (take (length samples div 2) samples) * 1.3 then Increasing
               else if halfRate (drop (length samples div 2) samples) <
                    halfRate (take (length samples div 2) samples) * 0.7 then Decreasing
               else Stable)
            else Stable)"
  using assms by (simp add: bandwidthTick_def Let_def)

text \<open>
  Claim C8, as the code has it.  A tick with at least 10 retained samples publishes the
  trend \<open>increasing\<close> iff the bitrate of the newer half exceeds 1.3 times that of the
  older half, \<open>decreasing\<close> iff it is below 0.7 times, and \<open>stable\<close> otherwise; a tick
  with at least 2 and fewer than 10 samples publishes \<open>stable\<close>; a tick with fewer than
  2 samples returns early and the published estimate, its trend included, stays what it
  was (\<open>stable\<close> at the start).
\<close>

theorem C8_trend_of_a_tick:
  "(10 \<le> length samples \<longrightarrow>
      (trend (bandwidthTick now samples prev) = Increasing \<longleftrightarrow>
         halfRate (drop (length samples div 2) samples) >
           halfRate (take (length samples div 2) samples) * 1.3) \<and>
      (trend (bandwidthTick now samples prev) = Decreasing \<longleftrightarrow>
         halfRate (drop (length samples div 2) samples) <
           halfRate (take (length samples div 2) samples) * 0.7) \<and>
      (trend (bandwidthTick now samples prev) = Stable \<longleftrightarrow>
         \<not> halfRate (drop (length samples div 2) samples) >
             halfRate (take (length samples div 2) samples) * 1.3 \<and>
         \<not> halfRate (drop (length samples div 2) samples) <
             halfRate (take (length samples div 2) samples) * 0.7)) \<and>
   (2 \<le> length samples \<and> length samples < 10 \<longrightarrow>
      trend (bandwidthTick now samples prev) = Stable) \<and>
   (length samples < 2 \<longrightarrow> bandwidthTick now samples prev = prev) \<and>
   trend initialBandwidth = Stable"
proof -
  have "halfRate (take (length samples div 2) samples) * 0.7 \<le>
        halfRate (take (length samples div 2) samples) * 1.3"
    using halfRate_nonneg [of "take (length samples div 2) samples"] by simp
  then have excl: "halfRate (drop (length samples div 2) samples) >
          halfRate (take (length samples div 2) samples) * 1.3 \<Longrightarrow>
        \<not> halfRate (drop (length samples div 2) samples) <
          halfRate (take (length samples div 2) samples) * 0.7"
    by linarith
  have early: "length samples < 2 \<Longrightarrow> bandwidthTick now samples prev = prev"
    by (simp add: bandwidthTick_def)
  show ?thesis
    using excl early bandwidthTick_trend [of samples now prev]
    by (auto simp: initialBandwidth_def)
qed

theorem C8_trend_of_a_tick_witness:
  "halfRate (take 5
      [\<lparr>bytes = 50000, time = 0\<rparr>, \<lparr>bytes = 50000, time = 250\<rparr>, \<lparr>bytes = 50000, time = 500\<rparr>,
       \<lparr>bytes = 50000, time = 750\<rparr>, \<lparr>bytes = 50000, time = 1000\<rparr>,
       \<lparr>bytes = 75000, time = 1250\<rparr>, \<lparr>bytes = 75000, time = 1500\<rparr>,
       \<lparr>bytes = 75000, time = 1750\<rparr>, \<lparr>bytes = 75000, time = 2000\<rparr>,
       \<lparr>bytes = 75000, time = 2250\<rparr>]) = 2 \<and>
   halfRate (drop 5
      [\<lparr>bytes = 50000, time = 0\<rparr>, \<lparr>bytes = 50000, time = 250\<rparr>, \<lparr>bytes = 50000, time = 500\<rparr>,
       \<lparr>bytes = 50000, time = 750\<rparr>, \<lparr>bytes = 50000, time = 1000\<rparr>,
       \<lparr>bytes = 75000, time = 1250\<rparr>, \<lparr>bytes = 75000, time = 1500\<rparr>,
       \<lparr>bytes = 75000, time = 1750\<rparr>, \<lparr>bytes = 75000, time = 2000\<rparr>,
       \<lparr>bytes = 75000, time = 2250\<rparr>]) = 3 \<and>
   trend (bandwidthTick 2300
      [\<lparr>bytes = 50000, time = 0\<rparr>, \<lparr>bytes = 50000, time = 250\<rparr>, \<lparr>bytes = 50000, time = 500\<rparr>,
       \<lparr>bytes = 50000, time = 750\<rparr>, \<lparr>bytes = 50000, time = 1000\<rparr>,
       \<lparr>bytes = 75000, time = 1250\<rparr>, \<lparr>bytes = 75000, time = 1500\<rparr>,
       \<lparr>bytes = 75000, time = 1750\<rparr>, \<lparr>bytes = 75000, time = 2000\<rparr>,
       \<lparr>bytes = 75000, time = 2250\<rparr>] initialBandwidth) = Increasing \<and>
   trend (bandwidthTick 2300
      [\<lparr>bytes = 50000, time = 0\<rparr>, \<lparr>bytes = 50000, time = 250\<rparr>] initialBandwidth) = Stable \<and>
   bandwidthTick 2300 [\<lparr>bytes = 50000, time = 0\<rparr>] initialBandwidth = initialBandwidth"
proof -
  let ?xs = "[\<lparr>bytes = 50000, time = 0\<rparr>, \<lparr>bytes = 50000, time = 250\<rparr>,
       \<lparr>bytes = 50000, time = 500\<rparr>,
       \<lparr>bytes = 50000, time = 750\<rparr>, \<lparr>bytes = 50000, time = 1000\<rparr>,
       \<lparr>bytes = 75000, time = 1250\<rparr>, \<lparr>bytes = 75000, time = 1500\<rparr>,
       \<lparr>bytes = 75000, time = 1750\<rparr>, \<lparr>bytes = 75000, time = 2000\<rparr>,
       \<lparr>bytes = 75000, time = 2250\<rparr>]"
  have old: "halfRate (take 5 ?xs) = 2" by (simp add: halfRate_def totalBytes_def Let_def)
  have new: "halfRate (drop 5 ?xs) = 3" by (simp add: halfRate_def totalBytes_def Let_def)
  from C8_trend_of_a_tick [where samples = ?xs and now = 2300 and prev = initialBandwidth]
  have inc: "trend (bandwidthTick 2300 ?xs initialBandwidth) = Increasing"
    by (simp add: halfRate_def totalBytes_def Let_def)
  from C8_trend_of_a_tick
    [where samples = "[\<lparr>bytes = 50000, time = 0\<rparr>, \<lparr>bytes = 50000, time = 250\<rparr>]"
       and now = 2300 and prev = initialBandwidth]
  have st: "trend (bandwidthTick 2300
      [\<lparr>bytes = 50000, time = 0\<rparr>, \<lparr>bytes = 50000, time = 250\<rparr>] initialBandwidth) = Stable"
    by simp
  from C8_trend_of_a_tick
    [where samples = "[\<lparr>bytes = 50000, time = 0\<rparr>]" and now = 2300
       and prev = initialBandwidth]
  have er: "bandwidthTick 2300 [\<lparr>bytes = 50000, time = 0\<rparr>] initialBandwidth =
      initialBandwidth"
    by simp
  from old new inc st er show ?thesis by (intro conjI)
qed

text \<open>
  Claim C8 as the specification words it gives the trend \<open>stable\<close> whenever fewer than
  10 samples are retained.  After a tick has published \<open>increasing\<close> from ten samples,
  one transfer observed more than 30 seconds later prunes the window to a single
  sample; the next tick returns early and the published trend is still \<open>increasing\<close>.
\<close>

theorem C8_stale_trend_with_one_sample_counterexample:
  "length (observeEntries 40000 [\<lparr>nameIsVideo = True, transferSize = 50000, encodedBodySize = 0\<rparr>]
      [\<lparr>bytes = 50000, time = 0\<rparr>, \<lparr>bytes = 50000, time = 250\<rparr>, \<lparr>bytes = 50000, time = 500\<rparr>,
       \<lparr>bytes = 50000, time = 750\<rparr>, \<lparr>bytes = 50000, time = 1000\<rparr>,
       \<lparr>bytes = 75000, time = 1250\<rparr>, \<lparr>bytes = 75000, time = 1500\<rparr>,
       \<lparr>bytes = 75000, time = 1750\<rparr>, \<lparr>bytes = 75000, time = 2000\<rparr>,
       \<lparr>bytes = 75000, time = 2250\<rparr>]) = 1 \<and>
   trend (bandwidthTick 40100
      (observeEntries 40000 [\<lparr>nameIsVideo = True, transferSize = 50000, encodedBodySize = 0\<rparr>]
        [\<lparr>bytes = 50000, time = 0\<rparr>, \<lparr>bytes = 50000, time = 250\<rparr>, \<lparr>bytes = 50000, time = 500\<rparr>,
         \<lparr>bytes = 50000, time = 750\<rparr>, \<lparr>bytes = 50000, time = 1000\<rparr>,
         \<lparr>bytes = 75000, time = 1250\<rparr>, \<lparr>bytes = 75000, time = 1500\<rparr>,
         \<lparr>bytes = 75000, time = 1750\<rparr>, \<lparr>bytes = 75000, time = 2000\<rparr>,
         \<lparr>bytes = 75000, time = 2250\<rparr>])
      (bandwidthTick 2300
        [\<lparr>bytes = 50000, time = 0\<rparr>, \<lparr>bytes = 50000, time = 250\<rparr>, \<lparr>bytes = 50000, time = 500\<rparr>,
         \<lparr>bytes = 50000, time = 750\<rparr>, \<lparr>bytes = 50000, time = 1000\<rparr>,
         \<lparr>bytes = 75000, time = 1250\<rparr>, \<lparr>bytes = 75000, time = 1500\<rparr>,
         \<lparr>bytes = 75000, time = 1750\<rparr>, \<lparr>bytes = 75000, time = 2000\<rparr>,
         \<lparr>bytes = 75000, time = 2250\<rparr>] initialBandwidth)) = Increasing"
proof -
  let ?xs = "[\<lparr>bytes = 50000, time = 0\<rparr>, \<lparr>bytes = 50000, time = 250\<rparr>,
       \<lparr>bytes = 50000, time = 500\<rparr>,
       \<lparr>bytes = 50000, time = 750\<rparr>, \<lparr>bytes = 50000, time = 1000\<rparr>,
       \<lparr>bytes = 75000, time = 1250\<rparr>, \<lparr>bytes = 75000, time = 1500\<rparr>,
       \<lparr>bytes = 75000, time = 1750\<rparr>, \<lparr>bytes = 75000, time = 2000\<rparr>,
       \<lparr>bytes = 75000, time = 2250\<rparr>]"
  have pruned: "observeEntries 40000
      [\<lparr>nameIsVideo = True, transferSize = 50000, encodedBodySize = 0\<rparr>] ?xs =
      [\<lparr>bytes = 50000, time = 40000\<rparr>]"
    by (simp add: Let_def)
  have inc: "trend (bandwidthTick 2300 ?xs initialBandwidth) = Increasing"
    using bandwidthTick_trend [of ?xs 2300 initialBandwidth]
    by (simp add: halfRate_def totalBytes_def Let_def)
  have "bandwidthTick 40100 [\<lparr>bytes = 50000, time = 40000\<rparr>]
          (bandwidthTick 2300 ?xs initialBandwidth) =
        bandwidthTick 2300 ?xs initialBandwidth"
    by (simp add: bandwidthTick_def)
  with pruned inc show ?thesis by simp
qed

end
